theory Spec2Isabelle
  imports Complex_Main
begin

section \<open>Python values\<close>

text \<open>
  The values that flow through the trait metadata, the node arguments and the helper
  functions of \<^verbatim>\<open>epi.py\<close>. \<open>Undefined\<close> is the singleton of the traits library that
  marks an input nobody has set; it is a value of its own, different from \<open>None\<close>.
  Python floats are idealised as reals.
\<close>

datatype pyval =
    PyNone
  | Undefined
  | PyBool bool
  | PyInt int
  | PyFloat real
  | PyStr string
  | PyList "pyval list"

datatype py_error =
    KeyError string
  | IOError string
  | TypeError
  | IndexError
  | LinAlgError

text \<open>
  Python's \<^verbatim>\<open>==\<close> on these values: numbers compare by value, whatever their type
  (\<^verbatim>\<open>True == 1\<close>, \<^verbatim>\<open>1.0 == 1\<close>), lists compare element by element, everything else
  structurally. \<open>py_norm\<close> sends every number to one representative.
\<close>

primrec py_norm :: "pyval \<Rightarrow> pyval" where
  "py_norm PyNone = PyNone"
| "py_norm Undefined = Undefined"
| "py_norm (PyBool b) = PyInt (if b then 1 else 0)"
| "py_norm (PyInt i) = PyInt i"
| "py_norm (PyFloat r) = (if r = of_int \<lfloor>r\<rfloor> then PyInt \<lfloor>r\<rfloor> else PyFloat r)"
| "py_norm (PyStr s) = PyStr s"
| "py_norm (PyList vs) = PyList (map py_norm vs)"

definition py_eq :: "pyval \<Rightarrow> pyval \<Rightarrow> bool" where
  "py_eq a b = (py_norm a = py_norm b)"

section \<open>The generated test of the Gennlxfm wrapper\<close>

text \<open>
  \<^verbatim>\<open>test_auto_Gennlxfm.py\<close>. A metadata dictionary is an association list in the order
  of the source; no property below depends on the order.
\<close>

type_synonym metadata = "(string \<times> pyval) list"

text \<open>
  A trait, seen through \<^verbatim>\<open>getattr(trait, metakey)\<close>: the value of each metadata
  attribute, \<open>PyNone\<close> for one that was never declared. \<^verbatim>\<open>inputs.traits()\<close> is a
  dictionary from field names to traits.
\<close>

type_synonym trait = "string \<Rightarrow> pyval"
type_synonym traits = "string \<rightharpoonup> trait"

definition input_map :: "(string \<times> metadata) list" where
  "input_map =
    [(''args'', [(''argstr'', PyStr ''%s'')]),
     (''clobber'', [(''argstr'', PyStr ''-clobber''), (''usedefault'', PyBool True)]),
     (''environ'', [(''nohash'', PyBool True), (''usedefault'', PyBool True)]),
     (''ident'', [(''argstr'', PyStr ''-ident'')]),
     (''ignore_exception'', [(''nohash'', PyBool True), (''usedefault'', PyBool True)]),
     (''like'', [(''argstr'', PyStr ''-like %s'')]),
     (''output_file'',
        [(''argstr'', PyStr ''%s''),
         (''genfile'', PyBool True),
         (''hash_files'', PyBool False),
         (''name_source'', PyList [PyStr ''like'']),
         (''name_template'', PyStr ''%s_gennlxfm.xfm''),
         (''position'', PyInt (- 1))]),
     (''step'', [(''argstr'', PyStr ''-step %s'')]),
     (''terminal_output'', [(''nohash'', PyBool True)]),
     (''verbose'', [(''argstr'', PyStr ''-verbose'')])]"


text \<open>
  The inner loop of both tests, for one field: every pass looks the field up in
  \<^verbatim>\<open>traits()\<close> (a \<^verbatim>\<open>KeyError\<close> when it is not declared) and yields one
  \<^verbatim>\<open>assert_equal\<close> of the attribute read against the expected value. A field whose
  expected metadata is empty is never looked up.
\<close>

fun yield_metadata :: "traits \<Rightarrow> string \<Rightarrow> metadata \<Rightarrow> py_error + (pyval \<times> pyval) list" where
  "yield_metadata tr key [] = Inr []"
| "yield_metadata tr key ((metakey, val) # rest) =
     (case tr key of
        None \<Rightarrow> Inl (KeyError key)
      | Some t \<Rightarrow>
          (case yield_metadata tr key rest of
             Inl e \<Rightarrow> Inl e
           | Inr cs \<Rightarrow> Inr ((t metakey, val) # cs)))"

text \<open>The outer loop: the checks of every field of the expected map, in order.\<close>

fun yield_checks :: "traits \<Rightarrow> (string \<times> metadata) list \<Rightarrow> py_error + (pyval \<times> pyval) list" where
  "yield_checks tr [] = Inr []"
| "yield_checks tr ((key, md) # rest) =
     (case yield_metadata tr key md of
        Inl e \<Rightarrow> Inl e
      | Inr cs \<Rightarrow>
          (case yield_checks tr rest of
             Inl e \<Rightarrow> Inl e
           | Inr ds \<Rightarrow> Inr (cs @ ds)))"

definition test_Gennlxfm_inputs :: "traits \<Rightarrow> py_error + (pyval \<times> pyval) list" where
  "test_Gennlxfm_inputs inputs = yield_checks inputs input_map"


text \<open>
  A generated test passes when the generator raises nothing and every yielded
  \<^verbatim>\<open>assert_equal(actual, expected)\<close> holds.
\<close>

fun checks_hold :: "(pyval \<times> pyval) list \<Rightarrow> bool" where
  "checks_hold [] = True"
| "checks_hold ((actual, expected) # cs) = (py_eq actual expected \<and> checks_hold cs)"

definition passes :: "py_error + (pyval \<times> pyval) list \<Rightarrow> bool" where
  "passes r = (case r of Inl e \<Rightarrow> False | Inr cs \<Rightarrow> checks_hold cs)"

subsection \<open>The wrapper under test\<close>

text \<open>
  Modelled from the spec: the class \<^verbatim>\<open>Gennlxfm\<close> of \<^verbatim>\<open>nipype/interfaces/minc/minc.py\<close>,
  which the test imports, is not among the sources. Its input spec is taken to declare,
  for each named field, the fixed expected trait attributes: the flag \<^verbatim>\<open>-clobber\<close>
  defaulting to enabled; for \<^verbatim>\<open>output_file\<close> the naming template
  \<^verbatim>\<open>%s_gennlxfm.xfm\<close>, sourced from the \<^verbatim>\<open>like\<close> input, generated automatically,
  excluded from hashing and positioned last; and the argument strings and hashing
  exclusions of the other fields.
\<close>

definition declare_trait :: "metadata \<Rightarrow> trait" where
  "declare_trait md metakey = (case map_of md metakey of None \<Rightarrow> PyNone | Some v \<Rightarrow> v)"

definition Gennlxfm_input_spec :: traits where
  "Gennlxfm_input_spec = map_of
    [(''args'', declare_trait [(''argstr'', PyStr ''%s'')]),
     (''clobber'', declare_trait [(''argstr'', PyStr ''-clobber''), (''usedefault'', PyBool True)]),
     (''environ'', declare_trait [(''nohash'', PyBool True), (''usedefault'', PyBool True)]),
     (''ident'', declare_trait [(''argstr'', PyStr ''-ident'')]),
     (''ignore_exception'', declare_trait [(''nohash'', PyBool True), (''usedefault'', PyBool True)]),
     (''like'', declare_trait [(''argstr'', PyStr ''-like %s'')]),
     (''output_file'', declare_trait
        [(''argstr'', PyStr ''%s''),
         (''genfile'', PyBool True),
         (''hash_files'', PyBool False),
         (''name_source'', PyList [PyStr ''like'']),
         (''name_template'', PyStr ''%s_gennlxfm.xfm''),
         (''position'', PyInt (- 1))]),
     (''step'', declare_trait [(''argstr'', PyStr ''-step %s'')]),
     (''terminal_output'', declare_trait [(''nohash'', PyBool True)]),
     (''verbose'', declare_trait [(''argstr'', PyStr ''-verbose'')])]"

text \<open>What the input test expects of one attribute of one field, if anything.\<close>

definition expected :: "string \<Rightarrow> string \<Rightarrow> pyval option" where
  "expected key metakey =
     (case map_of input_map key of None \<Rightarrow> None | Some md \<Rightarrow> map_of md metakey)"

section \<open>Arrays and files\<close>

text \<open>
  A Python float is a double: a finite number, an infinity or NaN; \<^verbatim>\<open>np.loadtxt\<close> parses
  all of them. A finite double is kept as the real number it denotes. No arithmetic is
  done on floats here: the code's own operations on them are the comparison with zero
  and \<^verbatim>\<open>fabs\<close>, which are exact on doubles, and the determinant, which is the
  library's.
\<close>

datatype pyfloat =
    Finite real
  | PosInf
  | NegInf
  | NaN

text \<open>\<^verbatim>\<open>math.fabs\<close>, \<^verbatim>\<open>x != 0\<close> and \<^verbatim>\<open>x >= 0\<close>; every comparison with NaN but \<^verbatim>\<open>!=\<close> is false.\<close>

fun fabs :: "pyfloat \<Rightarrow> pyfloat" where
  "fabs (Finite r) = Finite \<bar>r\<bar>"
| "fabs PosInf = PosInf"
| "fabs NegInf = PosInf"
| "fabs NaN = NaN"

fun float_ne0 :: "pyfloat \<Rightarrow> bool" where
  "float_ne0 (Finite r) = (r \<noteq> 0)"
| "float_ne0 PosInf = True"
| "float_ne0 NegInf = True"
| "float_ne0 NaN = True"

fun float_ge0 :: "pyfloat \<Rightarrow> bool" where
  "float_ge0 (Finite r) = (0 \<le> r)"
| "float_ge0 PosInf = True"
| "float_ge0 NegInf = False"
| "float_ge0 NaN = False"

text \<open>
  \<^verbatim>\<open>epi.py\<close> reads its tables and matrices with \<^verbatim>\<open>np.loadtxt\<close>. An array is kept by
  its shape: \<^verbatim>\<open>loadtxt\<close> squeezes what it reads, so a file holding one row or one
  column of several numbers gives a one-dimensional array, a file holding a single
  number a zero-dimensional one, and several rows of several columns a matrix (a list
  of rows).
\<close>

datatype ndarray =
    Arr0 pyfloat
  | Arr1 "pyfloat list"
  | Arr2 "pyfloat list list"

text \<open>
  The file system as \<^verbatim>\<open>loadtxt\<close> and \<^verbatim>\<open>savetxt\<close> see it: the array each readable
  file parses to, and the paths that can be written. \<open>cwd\<close> is the working directory,
  which \<^verbatim>\<open>os.path.abspath\<close> reads.
\<close>

record world =
  files :: "string \<rightharpoonup> ndarray"
  cwd :: string
  writable :: "string \<Rightarrow> bool"

definition loadtxt :: "(string \<rightharpoonup> ndarray) \<Rightarrow> string \<Rightarrow> py_error + ndarray" where
  "loadtxt fs fname = (case fs fname of None \<Rightarrow> Inl (IOError fname) | Some a \<Rightarrow> Inr a)"

text \<open>\<^verbatim>\<open>np.savetxt\<close>: an \<^verbatim>\<open>IOError\<close>, and nothing written, where the path cannot be written.\<close>

definition savetxt :: "world \<Rightarrow> string \<Rightarrow> ndarray \<Rightarrow> py_error + world" where
  "savetxt w fname a =
     (if writable w fname then Inr (w\<lparr>files := (files w)(fname \<mapsto> a)\<rparr>) else Inl (IOError fname))"

text \<open>\<^verbatim>\<open>len(a)\<close>: the size of the first axis; a zero-dimensional array has none.\<close>

definition np_len :: "ndarray \<Rightarrow> py_error + nat" where
  "np_len a = (case a of Arr0 x \<Rightarrow> Inl TypeError | Arr1 xs \<Rightarrow> Inr (length xs) | Arr2 m \<Rightarrow> Inr (length m))"

text \<open>
  \<^verbatim>\<open>np.where(a != 0)[0].tolist()\<close>: the first-axis index of every nonzero entry, in
  row-major order. For a matrix that is the row of each nonzero entry, so a row is
  listed once per nonzero entry in it; a zero-dimensional array is treated as an array
  of one entry, as numpy did when the code was written.
\<close>

definition where_nonzero :: "ndarray \<Rightarrow> nat list" where
  "where_nonzero a =
     (case a of
        Arr0 x \<Rightarrow> (if float_ne0 x then [0] else [])
      | Arr1 xs \<Rightarrow> filter (\<lambda>i. float_ne0 (xs ! i)) [0..<length xs]
      | Arr2 m \<Rightarrow>
          concat (map (\<lambda>i. replicate (length (filter float_ne0 (m ! i))) i) [0..<length m]))"

text \<open>\<^verbatim>\<open>np.eye(4)\<close>.\<close>

definition eye4 :: "pyfloat list list" where
  "eye4 =
     [[Finite 1, Finite 0, Finite 0, Finite 0],
      [Finite 0, Finite 1, Finite 0, Finite 0],
      [Finite 0, Finite 0, Finite 1, Finite 0],
      [Finite 0, Finite 0, Finite 0, Finite 1]]"

text \<open>
  \<^verbatim>\<open>np.linalg.det\<close> is the library's: it takes an array and returns a double, computed
  from a factorisation of the matrix with the rounding that comes with it, or raises.
  It is not modelled; the functions that call it take it as a parameter.
\<close>

type_synonym linalg_det = "ndarray \<Rightarrow> py_error + pyfloat"

subsection \<open>Paths and formatting\<close>

text \<open>
  \<^verbatim>\<open>os.path.abspath(p)\<close> for a relative file name \<open>p\<close>: the working directory joined
  with \<open>p\<close>. (The normalisation \<^verbatim>\<open>abspath\<close> ends with changes nothing in the join of
  a working directory and a plain file name.)
\<close>

definition abspath :: "string \<Rightarrow> string \<Rightarrow> string" where
  "abspath dir p = (if dir = [] \<or> last dir = CHR ''/'' then dir @ p else dir @ ''/'' @ p)"

definition digit_char :: "nat \<Rightarrow> char" where
  "digit_char d = ''0123456789'' ! d"

fun decimal :: "nat \<Rightarrow> string" where
  "decimal n = (if n < 10 then [digit_char n] else decimal (n div 10) @ [digit_char (n mod 10)])"

declare decimal.simps [simp del]

text \<open>\<^verbatim>\<open>'%04d' % i\<close> for an index \<open>i\<close>: decimal, padded with zeros to four digits.\<close>

definition fmt_04d :: "nat \<Rightarrow> string" where
  "fmt_04d i = replicate (4 - length (decimal i)) CHR ''0'' @ decimal i"

text \<open>\<^verbatim>\<open>'init_%04d.mat' % i\<close>.\<close>

definition init_name :: "nat \<Rightarrow> string" where
  "init_name i = ''init_'' @ fmt_04d i @ ''.mat''"

subsection \<open>Python's \<^verbatim>\<open>len\<close> and indexing\<close>

definition py_len :: "pyval \<Rightarrow> py_error + nat" where
  "py_len v = (case v of PyStr s \<Rightarrow> Inr (length s) | PyList vs \<Rightarrow> Inr (length vs) | _ \<Rightarrow> Inl TypeError)"

text \<open>\<^verbatim>\<open>v[i]\<close> for an index \<open>i \<ge> 0\<close>.\<close>

definition py_getitem :: "pyval \<Rightarrow> nat \<Rightarrow> py_error + pyval" where
  "py_getitem v i =
     (case v of
        PyList vs \<Rightarrow> (if i < length vs then Inr (vs ! i) else Inl IndexError)
      | PyStr s \<Rightarrow> (if i < length s then Inr (PyStr [s ! i]) else Inl IndexError)
      | _ \<Rightarrow> Inl TypeError)"

section \<open>The helper functions of \<^verbatim>\<open>epi.py\<close>\<close>

text \<open>
  Modelled from the spec: \<^verbatim>\<open>isdefined\<close> of \<^verbatim>\<open>nipype.interfaces.base\<close> is not among the
  sources. An optional input is undefined when it holds the \<open>Undefined\<close> marker; every
  other value, \<open>None\<close> included, is defined.
\<close>

definition isdefined :: "pyval \<Rightarrow> bool" where
  "isdefined v = (v \<noteq> Undefined)"

text \<open>\<^verbatim>\<open>_checkrnum\<close>.\<close>

definition checkrnum :: "pyval \<Rightarrow> pyval" where
  "checkrnum ref_num = (if ref_num = PyNone \<or> \<not> isdefined ref_num then PyInt 0 else ref_num)"

text \<open>\<^verbatim>\<open>_nonb0\<close>.\<close>

definition nonb0 :: "(string \<rightharpoonup> ndarray) \<Rightarrow> string \<Rightarrow> py_error + nat list" where
  "nonb0 fs in_bval =
     (case loadtxt fs in_bval of Inl e \<Rightarrow> Inl e | Inr bvals \<Rightarrow> Inr (where_nonzero bvals))"

text \<open>
  \<^verbatim>\<open>_checkinitxfm\<close>. It returns a list or raises, and either way leaves the file
  system as its writes have made it. Its first loop writes one identity matrix per index
  and collects the absolute file names; a write that fails ends it, with the files
  written so far in place. Its second loop collects the entries of \<^verbatim>\<open>in_xfms\<close>.
\<close>

fun write_identities :: "world \<Rightarrow> nat list \<Rightarrow> (py_error + pyval list) \<times> world" where
  "write_identities w [] = (Inr [], w)"
| "write_identities w (i # rest) =
     (let xfm_file = abspath (cwd w) (init_name i) in
      case savetxt w xfm_file (Arr2 eye4) of
        Inl e \<Rightarrow> (Inl e, w)
      | Inr w' \<Rightarrow>
          (case write_identities w' rest of
             (Inl e, w'') \<Rightarrow> (Inl e, w'')
           | (Inr init_xfms, w'') \<Rightarrow> (Inr (PyStr xfm_file # init_xfms), w'')))"

fun pick_xfms :: "pyval \<Rightarrow> nat list \<Rightarrow> py_error + pyval list" where
  "pick_xfms in_xfms [] = Inr []"
| "pick_xfms in_xfms (i # rest) =
     (case py_getitem in_xfms i of
        Inl e \<Rightarrow> Inl e
      | Inr x \<Rightarrow>
          (case pick_xfms in_xfms rest of
             Inl e \<Rightarrow> Inl e
           | Inr init_xfms \<Rightarrow> Inr (x # init_xfms)))"

definition checkinitxfm :: "world \<Rightarrow> string \<Rightarrow> pyval \<Rightarrow> (py_error + pyval list) \<times> world" where
  "checkinitxfm w in_bval in_xfms =
     (case loadtxt (files w) in_bval of
        Inl e \<Rightarrow> (Inl e, w)
      | Inr bvals \<Rightarrow>
          (let non_b0 = where_nonzero bvals in
           if in_xfms = PyNone \<or> \<not> isdefined in_xfms then write_identities w non_b0
           else
             (case py_len in_xfms of
                Inl e \<Rightarrow> (Inl e, w)
              | Inr n \<Rightarrow>
                  (case np_len bvals of
                     Inl e \<Rightarrow> (Inl e, w)
                   | Inr m \<Rightarrow>
                       if n \<noteq> m then write_identities w non_b0
                       else
                         (case pick_xfms in_xfms non_b0 of
                            Inl e \<Rightarrow> (Inl e, w)
                          | Inr init_xfms \<Rightarrow> (Inr init_xfms, w))))))"

text \<open>
  \<^verbatim>\<open>_xfm_jacobian\<close>: the list comprehension, one file after the other; \<open>det\<close> is
  \<^verbatim>\<open>np.linalg.det\<close>.
\<close>

fun xfm_jacobian :: "linalg_det \<Rightarrow> (string \<rightharpoonup> ndarray) \<Rightarrow> string list \<Rightarrow> py_error + pyfloat list" where
  "xfm_jacobian det fs [] = Inr []"
| "xfm_jacobian det fs (xfm # rest) =
     (case loadtxt fs xfm of
        Inl e \<Rightarrow> Inl e
      | Inr a \<Rightarrow>
          (case det a of
             Inl e \<Rightarrow> Inl e
           | Inr d \<Rightarrow>
               (case xfm_jacobian det fs rest of
                  Inl e \<Rightarrow> Inl e
                | Inr ds \<Rightarrow> Inr (fabs d # ds))))"

section \<open>The workflows of \<^verbatim>\<open>epi.py\<close>\<close>

text \<open>
  An interface is kept by its class and its keyword arguments;
  \<^verbatim>\<open>niu.IdentityInterface\<close> by its fields, which are its inputs and its outputs alike,
  and \<^verbatim>\<open>niu.Function\<close> by its input names, its output names and the name of the
  function it calls. A node is an interface under a name; a \<^verbatim>\<open>MapNode\<close> has the
  fields it iterates over as well.
\<close>

datatype interface =
    IdentityInterface "string list"
  | Function "string list" "string list" string
  | Interface string "(string \<times> pyval) list"

datatype node =
    Node interface string
  | MapNode interface string "string list"

fun node_name :: "node \<Rightarrow> string" where
  "node_name (Node i n) = n"
| "node_name (MapNode i n its) = n"

fun node_interface :: "node \<Rightarrow> interface" where
  "node_interface (Node i n) = i"
| "node_interface (MapNode i n its) = i"

text \<open>
  The source of a connection: an output field, or a pair of an output field and the
  name of a function of this module to apply to its value on the way.
\<close>

datatype source =
    Field string
  | Modified string string

type_synonym connection = "node \<times> node \<times> (source \<times> string) list"

text \<open>
  Modelled from the spec: \<^verbatim>\<open>pe.Workflow\<close> and its \<^verbatim>\<open>connect\<close> belong to the
  workflow engine, which is not among the sources. A workflow is a directed graph of
  processing nodes and the data fields flowing between them: \<^verbatim>\<open>connect\<close> adds the two
  nodes of each entry to the graph, if they are new, and wires each source field of the
  first to the named input field of the second.
\<close>

record workflow =
  wf_name :: string
  nodes :: "node list"
  edges :: "(string \<times> source \<times> string \<times> string) list"

definition Workflow :: "string \<Rightarrow> workflow" where
  "Workflow name = \<lparr>wf_name = name, nodes = [], edges = []\<rparr>"

definition add_node :: "node \<Rightarrow> node list \<Rightarrow> node list" where
  "add_node n ns = (if n \<in> set ns then ns else ns @ [n])"

fun connect :: "workflow \<Rightarrow> connection list \<Rightarrow> workflow" where
  "connect flow [] = flow"
| "connect flow ((srcnode, destnode, connects) # rest) =
     connect
       (flow\<lparr>nodes := add_node destnode (add_node srcnode (nodes flow)),
             edges := edges flow
             @ map (\<lambda>(src, dest). (node_name srcnode, src, node_name destnode, dest)) connects\<rparr>)
       rest"

definition get_node :: "workflow \<Rightarrow> string \<Rightarrow> node option" where
  "get_node flow n = find (\<lambda>nd. node_name nd = n) (nodes flow)"

text \<open>The connections that end in one input field of one node.\<close>

definition feeds :: "workflow \<Rightarrow> string \<Rightarrow> string \<Rightarrow> (string \<times> source) list" where
  "feeds flow dest_node dest =
     map (\<lambda>(u, src, v, d). (u, src)) (filter (\<lambda>(u, src, v, d). v = dest_node \<and> d = dest) (edges flow))"

definition hmc_pipeline :: "string \<Rightarrow> workflow" where
  "hmc_pipeline name =
    (let inputnode = Node (IdentityInterface [''in_file'', ''ref_num'', ''in_bvec'', ''in_mask''])
                       ''inputnode'';
         split = Node (Interface ''fsl.Split'' [(''dimension'', PyStr ''t'')]) ''SplitDWIs'';
         pick_ref = Node (Interface ''niu.Select'' []) ''Pick_b0'';
         flirt = MapNode (Interface ''fsl.FLIRT''
                   [(''interp'', PyStr ''spline''), (''cost'', PyStr ''normmi''),
                    (''cost_func'', PyStr ''normmi''), (''dof'', PyInt 6), (''bins'', PyInt 64),
                    (''save_log'', PyBool True),
                    (''searchr_x'', PyList [PyInt (- 4), PyInt 4]),
                    (''searchr_y'', PyList [PyInt (- 4), PyInt 4]),
                    (''searchr_z'', PyList [PyInt (- 4), PyInt 4]),
                    (''fine_search'', PyInt 1), (''coarse_search'', PyInt 10),
                    (''padding_size'', PyInt 1)])
                   ''CoRegistration'' [''in_file''];
         rot_bvec = Node (Function [''in_bvec'', ''in_matrix''] [''out_file''] ''rotate_bvecs'')
                      ''Rotate_Bvec'';
         merge = Node (Interface ''fsl.Merge'' [(''dimension'', PyStr ''t'')]) ''MergeDWIs'';
         outputnode = Node (IdentityInterface [''out_file'', ''out_bvec'', ''out_xfms''])
                        ''outputnode'';
         flow = Workflow name
     in connect flow
       [(inputnode, split, [(Field ''in_file'', ''in_file'')]),
        (split, pick_ref, [(Field ''out_files'', ''inlist'')]),
        (inputnode, pick_ref, [(Modified ''ref_num'' ''_checkrnum'', ''index'')]),
        (inputnode, flirt, [(Field ''in_mask'', ''ref_weight'')]),
        (split, flirt, [(Field ''out_files'', ''in_file'')]),
        (inputnode, rot_bvec, [(Field ''in_bvec'', ''in_bvec'')]),
        (flirt, rot_bvec, [(Field ''out_matrix_file'', ''in_matrix'')]),
        (pick_ref, flirt, [(Field ''out'', ''reference'')]),
        (flirt, merge, [(Field ''out_file'', ''in_files'')]),
        (merge, outputnode, [(Field ''merged_file'', ''out_file'')]),
        (rot_bvec, outputnode, [(Field ''out_file'', ''out_bvec'')]),
        (flirt, outputnode, [(Field ''out_matrix_file'', ''out_xfms'')])])"

definition ecc_pipeline :: "string \<Rightarrow> workflow" where
  "ecc_pipeline name =
    (let inputnode = Node (IdentityInterface [''in_file'', ''in_bval'', ''in_mask'', ''in_xfms''])
                       ''inputnode'';
         split = Node (Interface ''fsl.Split'' [(''dimension'', PyStr ''t'')]) ''SplitDWIs'';
         avg_b0 = Node (Function [''in_dwi'', ''in_bval''] [''out_file''] ''b0_average'') ''b0_avg'';
         pick_dwi = Node (Interface ''niu.Select'' []) ''Pick_DWIs'';
         flirt = MapNode (Interface ''fsl.FLIRT''
                   [(''no_search'', PyBool True), (''interp'', PyStr ''spline''),
                    (''cost'', PyStr ''normmi''), (''cost_func'', PyStr ''normmi''),
                    (''dof'', PyInt 12), (''bins'', PyInt 64), (''save_log'', PyBool True),
                    (''padding_size'', PyInt 1)])
                   ''CoRegistration'' [''in_file'', ''in_matrix_file''];
         initmat = Node (Function [''in_bval'', ''in_xfms''] [''init_xfms''] ''_checkinitxfm'')
                     ''InitXforms'';
         mult = MapNode (Interface ''fsl.BinaryMaths'' [(''operation'', PyStr ''mul'')])
                  ''ModulateDWIs'' [''in_file'', ''operand_value''];
         thres = MapNode (Interface ''fsl.Threshold'' [(''thresh'', PyFloat 0)])
                   ''RemoveNegative'' [''in_file''];
         get_mat = Node (Function [''in_bval'', ''in_xfms''] [''out_files''] ''recompose_xfm'')
                     ''GatherMatrices'';
         merge = Node (Function [''in_dwi'', ''in_bval'', ''in_corrected''] [''out_file'']
                         ''recompose_dwi'')
                   ''MergeDWIs'';
         outputnode = Node (IdentityInterface [''out_file'', ''out_xfms'']) ''outputnode'';
         flow = Workflow name
     in connect flow
       [(inputnode, split, [(Field ''in_file'', ''in_file'')]),
        (inputnode, avg_b0, [(Field ''in_file'', ''in_dwi''), (Field ''in_bval'', ''in_bval'')]),
        (inputnode, merge, [(Field ''in_file'', ''in_dwi''), (Field ''in_bval'', ''in_bval'')]),
        (inputnode, initmat, [(Field ''in_xfms'', ''in_xfms''), (Field ''in_bval'', ''in_bval'')]),
        (inputnode, get_mat, [(Field ''in_bval'', ''in_bval'')]),
        (split, pick_dwi, [(Field ''out_files'', ''inlist'')]),
        (inputnode, pick_dwi, [(Modified ''in_bval'' ''_nonb0'', ''index'')]),
        (inputnode, flirt, [(Field ''in_mask'', ''ref_weight'')]),
        (avg_b0, flirt, [(Field ''out_file'', ''reference'')]),
        (pick_dwi, flirt, [(Field ''out'', ''in_file'')]),
        (initmat, flirt, [(Field ''init_xfms'', ''in_matrix_file'')]),
        (flirt, get_mat, [(Field ''out_matrix_file'', ''in_xfms'')]),
        (flirt, mult, [(Modified ''out_matrix_file'' ''_xfm_jacobian'', ''operand_value'')]),
        (flirt, mult, [(Field ''out_file'', ''in_file'')]),
        (mult, thres, [(Field ''out_file'', ''in_file'')]),
        (thres, merge, [(Field ''out_file'', ''in_corrected'')]),
        (get_mat, outputnode, [(Field ''out_files'', ''out_xfms'')]),
        (merge, outputnode, [(Field ''out_file'', ''out_file'')])])"

section \<open>Notions the properties are stated with\<close>

text \<open>The file the first loop of \<^verbatim>\<open>_checkinitxfm\<close> writes for the index \<open>i\<close>.\<close>

definition init_path :: "world \<Rightarrow> nat \<Rightarrow> string" where
  "init_path w i = abspath (cwd w) (init_name i)"

text \<open>
  The b-values of a table: a one-dimensional array, or the single value of a
  zero-dimensional one. A matrix is no table of b-values.
\<close>

definition table_values :: "ndarray \<Rightarrow> pyfloat list option" where
  "table_values a = (case a of Arr0 x \<Rightarrow> Some [x] | Arr1 xs \<Rightarrow> Some xs | Arr2 m \<Rightarrow> None)"

text \<open>The matrix a file holds, and the real numbers its finite entries denote.\<close>

definition matrix_of :: "(string \<rightharpoonup> ndarray) \<Rightarrow> string \<Rightarrow> pyfloat list list" where
  "matrix_of fs f = (case fs f of Some (Arr2 m) \<Rightarrow> m | _ \<Rightarrow> [])"

fun is_finite :: "pyfloat \<Rightarrow> bool" where
  "is_finite (Finite r) = True"
| "is_finite PosInf = False"
| "is_finite NegInf = False"
| "is_finite NaN = False"

fun real_of :: "pyfloat \<Rightarrow> real" where
  "real_of (Finite r) = r"
| "real_of PosInf = 0"
| "real_of NegInf = 0"
| "real_of NaN = 0"

definition reals :: "pyfloat list list \<Rightarrow> real list list" where
  "reals m = map (map real_of) m"

text \<open>
  A file that holds an affine transform as the registration tool writes it: four rows
  of four finite numbers, the last row \<open>0 0 0 1\<close>.
\<close>

definition holds_affine :: "(string \<rightharpoonup> ndarray) \<Rightarrow> string \<Rightarrow> bool" where
  "holds_affine fs f =
     (case fs f of
        Some (Arr2 m) \<Rightarrow>
          length m = 4 \<and> list_all (\<lambda>r. length r = 4) m \<and> list_all (list_all is_finite) m
          \<and> m ! 3 = [Finite 0, Finite 0, Finite 0, Finite 1]
      | _ \<Rightarrow> False)"

text \<open>
  The library's determinant returns a double for a file, and the double it returns.
\<close>

definition det_returns :: "linalg_det \<Rightarrow> (string \<rightharpoonup> ndarray) \<Rightarrow> string \<Rightarrow> bool" where
  "det_returns det fs f =
     (case fs f of
        None \<Rightarrow> False
      | Some a \<Rightarrow> (case det a of Inl e \<Rightarrow> False | Inr d \<Rightarrow> True))"

definition det_of :: "linalg_det \<Rightarrow> (string \<rightharpoonup> ndarray) \<Rightarrow> string \<Rightarrow> pyfloat" where
  "det_of det fs f =
     (case fs f of
        None \<Rightarrow> NaN
      | Some a \<Rightarrow> (case det a of Inl e \<Rightarrow> NaN | Inr d \<Rightarrow> d))"

text \<open>
  The determinant of a square matrix of real numbers, by cofactor expansion along the
  first row.
\<close>

definition del_col :: "nat \<Rightarrow> 'a list \<Rightarrow> 'a list" where
  "del_col j r = take j r @ drop (Suc j) r"

fun cofactor_det :: "real list list \<Rightarrow> real" where
  "cofactor_det [] = 1"
| "cofactor_det (r # rs) =
     (\<Sum>j\<leftarrow>[0..<length r]. (- 1) ^ j * (r ! j) * cofactor_det (map (del_col j) rs))"

text \<open>
  The Jacobian determinant of the affine transform \<open>x \<mapsto> A x + t\<close> that a four by four
  matrix stands for: the determinant of \<open>A\<close>, its upper left three by three block.
\<close>

definition jacobian_det :: "real list list \<Rightarrow> real" where
  "jacobian_det m =
     (let a = m ! 0 ! 0; b = m ! 0 ! 1; c = m ! 0 ! 2;
          d = m ! 1 ! 0; e = m ! 1 ! 1; f = m ! 1 ! 2;
          g = m ! 2 ! 0; h = m ! 2 ! 1; i = m ! 2 ! 2
      in a * (e * i - f * h) - b * (d * i - f * g) + c * (d * h - e * g))"

text \<open>
  A determinant function for the examples: the determinant without rounding for a
  square matrix of finite entries, NaN for a square matrix with an entry that is not
  finite, a \<^verbatim>\<open>LinAlgError\<close> for any other array. On the example matrices below, which
  are diagonal or triangular with small whole entries, or hold a NaN, the factorisation
  rounds nothing and this is what the library returns. The properties themselves are
  proved for every determinant function.
\<close>

definition exact_det :: linalg_det where
  "exact_det a =
     (case a of
        Arr2 m \<Rightarrow>
          (if list_all (\<lambda>r. length r = length m) m
           then Inr (if list_all (list_all is_finite) m then Finite (cofactor_det (reals m)) else NaN)
           else Inl LinAlgError)
      | _ \<Rightarrow> Inl LinAlgError)"

text \<open>
  Example inputs: a left-right flip, an anisotropic scaling with a translation and a
  matrix with a NaN entry; a working directory with a table of four b-values and a table
  of a single b-value, once writable and once read-only.
\<close>

definition example_fs :: "string \<rightharpoonup> ndarray" where
  "example_fs =
     [''flip.mat'' \<mapsto> Arr2 [[Finite (- 1), Finite 0, Finite 0, Finite 0],
                              [Finite 0, Finite 1, Finite 0, Finite 0],
                              [Finite 0, Finite 0, Finite 1, Finite 0],
                              [Finite 0, Finite 0, Finite 0, Finite 1]],
      ''scale.mat'' \<mapsto> Arr2 [[Finite 2, Finite 0, Finite 0, Finite 5],
                               [Finite 0, Finite 1, Finite 0, Finite 0],
                               [Finite 0, Finite 0, Finite 3, Finite (- 1)],
                               [Finite 0, Finite 0, Finite 0, Finite 1]],
      ''nan.mat'' \<mapsto> Arr2 [[NaN, Finite 0, Finite 0, Finite 0],
                             [Finite 0, Finite 1, Finite 0, Finite 0],
                             [Finite 0, Finite 0, Finite 1, Finite 0],
                             [Finite 0, Finite 0, Finite 0, Finite 1]]]"

definition example_world :: world where
  "example_world =
     \<lparr>files = [''dwi.bval'' \<mapsto> Arr1 [Finite 0, Finite 1000, Finite 0, Finite 2000],
               ''one.bval'' \<mapsto> Arr0 (Finite 1000)],
      cwd = ''/work'',
      writable = (\<lambda>p. True)\<rparr>"

definition readonly_world :: world where
  "readonly_world = example_world\<lparr>writable := (\<lambda>p. False)\<rparr>"

section \<open>Properties of the generated test\<close>

lemma yield_metadata_lookup:
  assumes "yield_metadata tr key md = Inr cs" and "checks_hold cs" and "(metakey, v) \<in> set md"
  shows "\<exists>t. tr key = Some t \<and> py_eq (t metakey) v"
  using assms
proof (induction md arbitrary: cs)
  case Nil
  then show ?case by simp
next
  case (Cons p rest)
  obtain mk w where p: "p = (mk, w)" by (cases p)
  from Cons.prems(1) p obtain t ds where
    t: "tr key = Some t" and ds: "yield_metadata tr key rest = Inr ds"
    and cs: "cs = (t mk, w) # ds"
    by (auto split: option.splits sum.splits)
  from Cons.prems(2) cs have here: "py_eq (t mk) w" and there: "checks_hold ds" by simp_all
  show ?case
  proof (cases "(metakey, v) = (mk, w)")
    case True
    with t here show ?thesis by simp
  next
    case False
    with Cons.prems(3) p have "(metakey, v) \<in> set rest" by auto
    from Cons.IH [OF ds there this] show ?thesis .
  qed
qed

lemma checks_hold_append: "checks_hold (cs @ ds) = (checks_hold cs \<and> checks_hold ds)"
  by (induction cs) auto

lemma yield_checks_lookup:
  assumes "passes (yield_checks tr m)" and "(key, md) \<in> set m" and "(metakey, v) \<in> set md"
  shows "\<exists>t. tr key = Some t \<and> py_eq (t metakey) v"
  using assms
proof (induction m)
  case Nil
  then show ?case by simp
next
  case (Cons p rest)
  obtain k d where p: "p = (k, d)" by (cases p)
  from Cons.prems(1) p obtain cs ds where
    cs: "yield_metadata tr k d = Inr cs" and ds: "yield_checks tr rest = Inr ds"
    and ok: "checks_hold (cs @ ds)"
    by (auto simp: passes_def split: sum.splits)
  from ok have ok1: "checks_hold cs" and ok2: "checks_hold ds"
    by (simp_all add: checks_hold_append)
  show ?case
  proof (cases "(key, md) = (k, d)")
    case True
    with cs ok1 Cons.prems(3) show ?thesis
      by (auto dest: yield_metadata_lookup)
  next
    case False
    with Cons.prems(2) p have "(key, md) \<in> set rest" by auto
    moreover from ds ok2 have "passes (yield_checks tr rest)" by (simp add: passes_def)
    ultimately show ?thesis using Cons.IH Cons.prems(3) by blast
  qed
qed

lemma inputs_lookup:
  assumes "passes (test_Gennlxfm_inputs inputs)"
    and "map_of input_map key = Some md" and "map_of md metakey = Some v"
  shows "\<exists>t. inputs key = Some t \<and> py_eq (t metakey) v"
  using assms(1) map_of_SomeD [OF assms(2)] map_of_SomeD [OF assms(3)]
  unfolding test_Gennlxfm_inputs_def by (rule yield_checks_lookup)

lemma Gennlxfm_inputs_pass: "passes (test_Gennlxfm_inputs Gennlxfm_input_spec)"
  by (simp add: test_Gennlxfm_inputs_def input_map_def Gennlxfm_input_spec_def
      declare_trait_def passes_def py_eq_def)

lemma expected_lookup:
  assumes "passes (test_Gennlxfm_inputs inputs)" and "expected key metakey = Some v"
  shows "\<exists>t. inputs key = Some t \<and> py_eq (t metakey) v"
proof -
  from assms(2) obtain md where "map_of input_map key = Some md" and "map_of md metakey = Some v"
    by (auto simp: expected_def split: option.splits)
  with assms(1) show ?thesis by (rule inputs_lookup)
qed

lemma expected_output_file:
  "expected ''output_file'' ''name_template'' = Some (PyStr ''%s_gennlxfm.xfm'')"
  "expected ''output_file'' ''name_source'' = Some (PyList [PyStr ''like''])"
  "expected ''output_file'' ''genfile'' = Some (PyBool True)"
  "expected ''output_file'' ''hash_files'' = Some (PyBool False)"
  "expected ''output_file'' ''position'' = Some (PyInt (- 1))"
  by (simp_all add: expected_def input_map_def)

lemma expected_clobber:
  "expected ''clobber'' ''argstr'' = Some (PyStr ''-clobber'')"
  "expected ''clobber'' ''usedefault'' = Some (PyBool True)"
  by (simp_all add: expected_def input_map_def)

text \<open>
  C1. The \<^verbatim>\<open>output_file\<close> input field of the Gennlxfm wrapper has the naming template
  \<^verbatim>\<open>%s_gennlxfm.xfm\<close>, takes its name from the \<^verbatim>\<open>like\<close> input, is generated
  automatically, is excluded from hashing and stands last on the command line
  (position \<open>-1\<close>). This holds of the wrapper as declared, and of every input spec on
  which the generated test passes (up to Python's \<^verbatim>\<open>==\<close>, which is what
  \<^verbatim>\<open>assert_equal\<close> compares with).
\<close>

theorem output_file_metadata:
  "(\<exists>t. Gennlxfm_input_spec ''output_file'' = Some t
        \<and> t ''name_template'' = PyStr ''%s_gennlxfm.xfm''
        \<and> t ''name_source'' = PyList [PyStr ''like'']
        \<and> t ''genfile'' = PyBool True
        \<and> t ''hash_files'' = PyBool False
        \<and> t ''position'' = PyInt (- 1))
   \<and> (\<forall>inputs. passes (test_Gennlxfm_inputs inputs) \<longrightarrow>
        (\<exists>t. inputs ''output_file'' = Some t
          \<and> py_eq (t ''name_template'') (PyStr ''%s_gennlxfm.xfm'')
          \<and> py_eq (t ''name_source'') (PyList [PyStr ''like''])
          \<and> py_eq (t ''genfile'') (PyBool True)
          \<and> py_eq (t ''hash_files'') (PyBool False)
          \<and> py_eq (t ''position'') (PyInt (- 1))))"
proof (intro conjI allI impI)
  show "\<exists>t. Gennlxfm_input_spec ''output_file'' = Some t
        \<and> t ''name_template'' = PyStr ''%s_gennlxfm.xfm''
        \<and> t ''name_source'' = PyList [PyStr ''like'']
        \<and> t ''genfile'' = PyBool True
        \<and> t ''hash_files'' = PyBool False
        \<and> t ''position'' = PyInt (- 1)"
    by (simp add: Gennlxfm_input_spec_def declare_trait_def)
next
  fix inputs
  assume ok: "passes (test_Gennlxfm_inputs inputs)"
  from expected_lookup [OF ok expected_output_file(1)]
  obtain t where t: "inputs ''output_file'' = Some t"
    and "py_eq (t ''name_template'') (PyStr ''%s_gennlxfm.xfm'')" by blast
  moreover from expected_lookup [OF ok expected_output_file(2)] t
  have "py_eq (t ''name_source'') (PyList [PyStr ''like''])" by simp
  moreover from expected_lookup [OF ok expected_output_file(3)] t
  have "py_eq (t ''genfile'') (PyBool True)" by simp
  moreover from expected_lookup [OF ok expected_output_file(4)] t
  have "py_eq (t ''hash_files'') (PyBool False)" by simp
  moreover from expected_lookup [OF ok expected_output_file(5)] t
  have "py_eq (t ''position'') (PyInt (- 1))" by simp
  ultimately show "\<exists>t. inputs ''output_file'' = Some t
          \<and> py_eq (t ''name_template'') (PyStr ''%s_gennlxfm.xfm'')
          \<and> py_eq (t ''name_source'') (PyList [PyStr ''like''])
          \<and> py_eq (t ''genfile'') (PyBool True)
          \<and> py_eq (t ''hash_files'') (PyBool False)
          \<and> py_eq (t ''position'') (PyInt (- 1))"
    by blast
qed

theorem output_file_metadata_witness:
  "passes (test_Gennlxfm_inputs Gennlxfm_input_spec)
   \<and> (\<exists>t. Gennlxfm_input_spec ''output_file'' = Some t
          \<and> py_eq (t ''name_template'') (PyStr ''%s_gennlxfm.xfm'')
          \<and> py_eq (t ''name_source'') (PyList [PyStr ''like''])
          \<and> py_eq (t ''genfile'') (PyBool True)
          \<and> py_eq (t ''hash_files'') (PyBool False)
          \<and> py_eq (t ''position'') (PyInt (- 1)))"
  using output_file_metadata [THEN conjunct2, rule_format, OF Gennlxfm_inputs_pass]
    Gennlxfm_inputs_pass
  by simp

text \<open>
  C5. The wrapper declares an input flag \<^verbatim>\<open>clobber\<close> whose argument string is
  \<^verbatim>\<open>-clobber\<close> and whose default is used (\<^verbatim>\<open>usedefault\<close> is true): as declared, and
  in every input spec on which the generated test passes.
\<close>

theorem clobber_metadata:
  "(\<exists>t. Gennlxfm_input_spec ''clobber'' = Some t
        \<and> t ''argstr'' = PyStr ''-clobber''
        \<and> t ''usedefault'' = PyBool True)
   \<and> (\<forall>inputs. passes (test_Gennlxfm_inputs inputs) \<longrightarrow>
        (\<exists>t. inputs ''clobber'' = Some t
          \<and> py_eq (t ''argstr'') (PyStr ''-clobber'')
          \<and> py_eq (t ''usedefault'') (PyBool True)))"
proof (intro conjI allI impI)
  show "\<exists>t. Gennlxfm_input_spec ''clobber'' = Some t
        \<and> t ''argstr'' = PyStr ''-clobber''
        \<and> t ''usedefault'' = PyBool True"
    by (simp add: Gennlxfm_input_spec_def declare_trait_def)
next
  fix inputs
  assume ok: "passes (test_Gennlxfm_inputs inputs)"
  from expected_lookup [OF ok expected_clobber(1)]
  obtain t where t: "inputs ''clobber'' = Some t"
    and "py_eq (t ''argstr'') (PyStr ''-clobber'')" by blast
  moreover from expected_lookup [OF ok expected_clobber(2)] t
  have "py_eq (t ''usedefault'') (PyBool True)" by simp
  ultimately show "\<exists>t. inputs ''clobber'' = Some t
          \<and> py_eq (t ''argstr'') (PyStr ''-clobber'')
          \<and> py_eq (t ''usedefault'') (PyBool True)"
    by blast
qed

theorem clobber_metadata_witness:
  "passes (test_Gennlxfm_inputs Gennlxfm_input_spec)
   \<and> (\<exists>t. Gennlxfm_input_spec ''clobber'' = Some t
          \<and> py_eq (t ''argstr'') (PyStr ''-clobber'')
          \<and> py_eq (t ''usedefault'') (PyBool True))"
  using clobber_metadata [THEN conjunct2, rule_format, OF Gennlxfm_inputs_pass]
    Gennlxfm_inputs_pass
  by simp

lemma expected_argstr:
  "expected ''args'' ''argstr'' = Some (PyStr ''%s'')"
  "expected ''ident'' ''argstr'' = Some (PyStr ''-ident'')"
  "expected ''like'' ''argstr'' = Some (PyStr ''-like %s'')"
  "expected ''step'' ''argstr'' = Some (PyStr ''-step %s'')"
  "expected ''verbose'' ''argstr'' = Some (PyStr ''-verbose'')"
  by (simp_all add: expected_def input_map_def)

lemma expected_nohash:
  "expected ''environ'' ''nohash'' = Some (PyBool True)"
  "expected ''ignore_exception'' ''nohash'' = Some (PyBool True)"
  "expected ''terminal_output'' ''nohash'' = Some (PyBool True)"
  by (simp_all add: expected_def input_map_def)

lemma declared_as_expected:
  assumes "expected key metakey = Some v"
  shows "\<exists>t. Gennlxfm_input_spec key = Some t \<and> t metakey = v"
  using assms
  by (simp add: expected_def input_map_def Gennlxfm_input_spec_def declare_trait_def
      split: if_splits)

text \<open>
  C6. The expected map of the input test names exactly the ten fields \<^verbatim>\<open>args\<close>,
  \<^verbatim>\<open>clobber\<close>, \<^verbatim>\<open>environ\<close>, \<^verbatim>\<open>ident\<close>, \<^verbatim>\<open>ignore_exception\<close>, \<^verbatim>\<open>like\<close>,
  \<^verbatim>\<open>output_file\<close>, \<^verbatim>\<open>step\<close>, \<^verbatim>\<open>terminal_output\<close> and \<^verbatim>\<open>verbose\<close>; it
  expects the argument strings \<^verbatim>\<open>%s\<close>, \<^verbatim>\<open>-ident\<close>, \<^verbatim>\<open>-like %s\<close>, \<^verbatim>\<open>-step %s\<close> and
  \<^verbatim>\<open>-verbose\<close> of \<^verbatim>\<open>args\<close>, \<^verbatim>\<open>ident\<close>, \<^verbatim>\<open>like\<close>, \<^verbatim>\<open>step\<close> and \<^verbatim>\<open>verbose\<close>,
  and \<^verbatim>\<open>nohash\<close> true of \<^verbatim>\<open>environ\<close>, \<^verbatim>\<open>ignore_exception\<close> and
  \<^verbatim>\<open>terminal_output\<close>. Every attribute the map lists of a field has the expected value
  in the wrapper as declared, and (up to \<^verbatim>\<open>==\<close>) in every input spec on which the
  generated test passes.
\<close>

theorem input_fields_metadata:
  "map fst input_map =
     [''args'', ''clobber'', ''environ'', ''ident'', ''ignore_exception'', ''like'',
      ''output_file'', ''step'', ''terminal_output'', ''verbose'']
   \<and> expected ''args'' ''argstr'' = Some (PyStr ''%s'')
   \<and> expected ''ident'' ''argstr'' = Some (PyStr ''-ident'')
   \<and> expected ''like'' ''argstr'' = Some (PyStr ''-like %s'')
   \<and> expected ''step'' ''argstr'' = Some (PyStr ''-step %s'')
   \<and> expected ''verbose'' ''argstr'' = Some (PyStr ''-verbose'')
   \<and> expected ''environ'' ''nohash'' = Some (PyBool True)
   \<and> expected ''ignore_exception'' ''nohash'' = Some (PyBool True)
   \<and> expected ''terminal_output'' ''nohash'' = Some (PyBool True)
   \<and> (\<forall>key metakey v. expected key metakey = Some v \<longrightarrow>
         (\<exists>t. Gennlxfm_input_spec key = Some t \<and> t metakey = v))
   \<and> (\<forall>inputs key metakey v.
         passes (test_Gennlxfm_inputs inputs) \<and> expected key metakey = Some v \<longrightarrow>
         (\<exists>t. inputs key = Some t \<and> py_eq (t metakey) v))"
proof -
  have names: "map fst input_map =
     [''args'', ''clobber'', ''environ'', ''ident'', ''ignore_exception'', ''like'',
      ''output_file'', ''step'', ''terminal_output'', ''verbose'']"
    by (simp add: input_map_def)
  have declared: "\<forall>key metakey v. expected key metakey = Some v \<longrightarrow>
         (\<exists>t. Gennlxfm_input_spec key = Some t \<and> t metakey = v)"
    using declared_as_expected by blast
  have tested: "\<forall>inputs key metakey v.
         passes (test_Gennlxfm_inputs inputs) \<and> expected key metakey = Some v \<longrightarrow>
         (\<exists>t. inputs key = Some t \<and> py_eq (t metakey) v)"
    using expected_lookup by blast
  from names expected_argstr expected_nohash declared tested show ?thesis
    by (intro conjI)
qed

theorem input_fields_metadata_witness:
  "passes (test_Gennlxfm_inputs Gennlxfm_input_spec)
   \<and> expected ''like'' ''argstr'' = Some (PyStr ''-like %s'')
   \<and> (\<exists>t. Gennlxfm_input_spec ''like'' = Some t \<and> t ''argstr'' = PyStr ''-like %s'')
   \<and> (\<exists>t. Gennlxfm_input_spec ''like'' = Some t \<and> py_eq (t ''argstr'') (PyStr ''-like %s''))"
proof -
  note all = input_fields_metadata
  have e: "expected ''like'' ''argstr'' = Some (PyStr ''-like %s'')"
    using all by blast
  have d: "\<exists>t. Gennlxfm_input_spec ''like'' = Some t \<and> t ''argstr'' = PyStr ''-like %s''"
    using all e by blast
  have t: "\<exists>t. Gennlxfm_input_spec ''like'' = Some t \<and> py_eq (t ''argstr'') (PyStr ''-like %s'')"
    using all e Gennlxfm_inputs_pass by blast
  from Gennlxfm_inputs_pass e d t show ?thesis by blast
qed



section \<open>Properties of the workflows\<close>

lemma edges_connect:
  "edges (connect flow cs) =
     edges flow
       @ concat (map (\<lambda>(u, v, fs). map (\<lambda>(s, d). (node_name u, s, node_name v, d)) fs) cs)"
  by (induction cs arbitrary: flow) auto

lemma set_add_node: "set (add_node n ns) = insert n (set ns)"
  by (auto simp: add_node_def)

lemma nodes_connect:
  "set (nodes (connect flow cs)) =
     set (nodes flow) \<union> set (concat (map (\<lambda>(u, v, fs). [u, v]) cs))"
proof (induction cs arbitrary: flow)
  case Nil
  show ?case by simp
next
  case (Cons c cs)
  obtain u v fs where c: "c = (u, v, fs)" by (cases c)
  have "set (nodes (connect flow ((u, v, fs) # cs))) =
      set (add_node v (add_node u (nodes flow))) \<union> set (concat (map (\<lambda>(u, v, fs). [u, v]) cs))"
    by (simp add: Cons.IH)
  also have "\<dots> =
      set (nodes flow) \<union> set (concat (map (\<lambda>(u, v, fs). [u, v]) ((u, v, fs) # cs)))"
    by (auto simp: set_add_node)
  finally show ?case unfolding c .
qed

lemma find_unique:
  assumes "x \<in> set xs" and "P x" and "\<And>y. y \<in> set xs \<Longrightarrow> P y \<Longrightarrow> y = x"
  shows "find P xs = Some x"
  using assms
proof (induction xs)
  case Nil
  then show ?case by simp
next
  case (Cons a xs)
  show ?case
  proof (cases "P a")
    case True
    with Cons.prems(3) [of a] have "a = x" by simp
    with True show ?thesis by simp
  next
    case False
    with Cons.prems(1,2) have "x \<in> set xs" by auto
    from Cons.IH [OF this Cons.prems(2)] Cons.prems(3) False show ?thesis by simp
  qed
qed

text \<open>
  A node of a fresh workflow is found under its name when it stands in a connection and
  no other connected node bears the name.
\<close>

lemma get_node_connect:
  assumes "x \<in> set (concat (map (\<lambda>(u, v, fs). [u, v]) cs))" and "node_name x = n"
    and "list_all (\<lambda>y. node_name y = n \<longrightarrow> y = x) (concat (map (\<lambda>(u, v, fs). [u, v]) cs))"
  shows "get_node (connect (Workflow name) cs) n = Some x"
  unfolding get_node_def
proof (rule find_unique)
  have ns: "set (nodes (connect (Workflow name) cs)) =
      set (concat (map (\<lambda>(u, v, fs). [u, v]) cs))"
    by (simp add: nodes_connect Workflow_def)
  show "x \<in> set (nodes (connect (Workflow name) cs))"
    using assms(1) ns by simp
  show "node_name x = n" by (rule assms(2))
  fix y assume "y \<in> set (nodes (connect (Workflow name) cs))" and "node_name y = n"
  with assms(3) ns show "y = x"
    unfolding list_all_iff by blast
qed

lemma hmc_Pick_b0_index:
  "feeds (hmc_pipeline name) ''Pick_b0'' ''index''
     = [(''inputnode'', Modified ''ref_num'' ''_checkrnum'')]"
  apply (simp only: hmc_pipeline_def Let_def)
  apply (simp only: feeds_def edges_connect Workflow_def)
  apply (simp only: list.map prod.case node_name.simps concat.simps append.simps workflow.simps)
  apply simp
  done

lemma ecc_ModulateDWIs_operand:
  "feeds (ecc_pipeline name) ''ModulateDWIs'' ''operand_value''
     = [(''CoRegistration'', Modified ''out_matrix_file'' ''_xfm_jacobian'')]"
  apply (simp only: ecc_pipeline_def Let_def)
  apply (simp only: feeds_def edges_connect Workflow_def)
  apply (simp only: list.map prod.case node_name.simps concat.simps append.simps workflow.simps)
  apply simp
  done

lemma hmc_inputnode:
  "get_node (hmc_pipeline name) ''inputnode''
     = Some (Node (IdentityInterface [''in_file'', ''ref_num'', ''in_bvec'', ''in_mask''])
         ''inputnode'')"
  apply (simp only: hmc_pipeline_def Let_def)
  apply (rule get_node_connect)
    apply (simp only: list.map prod.case concat.simps append.simps list.set insert_iff simp_thms)
   apply (simp only: node_name.simps)
  apply (simp only: list.map prod.case concat.simps append.simps list.pred_inject node_name.simps)
  apply simp
  done

lemma hmc_outputnode:
  "get_node (hmc_pipeline name) ''outputnode''
     = Some (Node (IdentityInterface [''out_file'', ''out_bvec'', ''out_xfms'']) ''outputnode'')"
  apply (simp only: hmc_pipeline_def Let_def)
  apply (rule get_node_connect)
    apply (simp only: list.map prod.case concat.simps append.simps list.set insert_iff simp_thms)
   apply (simp only: node_name.simps)
  apply (simp only: list.map prod.case concat.simps append.simps list.pred_inject node_name.simps)
  apply simp
  done

lemma ecc_inputnode:
  "get_node (ecc_pipeline name) ''inputnode''
     = Some (Node (IdentityInterface [''in_file'', ''in_bval'', ''in_mask'', ''in_xfms''])
         ''inputnode'')"
  apply (simp only: ecc_pipeline_def Let_def)
  apply (rule get_node_connect)
    apply (simp only: list.map prod.case concat.simps append.simps list.set insert_iff simp_thms)
   apply (simp only: node_name.simps)
  apply (simp only: list.map prod.case concat.simps append.simps list.pred_inject node_name.simps)
  apply simp
  done

lemma ecc_outputnode:
  "get_node (ecc_pipeline name) ''outputnode''
     = Some (Node (IdentityInterface [''out_file'', ''out_xfms'']) ''outputnode'')"
  apply (simp only: ecc_pipeline_def Let_def)
  apply (rule get_node_connect)
    apply (simp only: list.map prod.case concat.simps append.simps list.set insert_iff simp_thms)
   apply (simp only: node_name.simps)
  apply (simp only: list.map prod.case concat.simps append.simps list.pred_inject node_name.simps)
  apply simp
  done

text \<open>
  C7. The workflow of \<^verbatim>\<open>hmc_pipeline\<close> has an input node with exactly the fields
  \<^verbatim>\<open>in_file\<close>, \<^verbatim>\<open>ref_num\<close>, \<^verbatim>\<open>in_bvec\<close> and \<^verbatim>\<open>in_mask\<close> and an output node with
  exactly \<^verbatim>\<open>out_file\<close>, \<^verbatim>\<open>out_bvec\<close> and \<^verbatim>\<open>out_xfms\<close>; the workflow of
  \<^verbatim>\<open>ecc_pipeline\<close> has an input node with exactly \<^verbatim>\<open>in_file\<close>, \<^verbatim>\<open>in_bval\<close>,
  \<^verbatim>\<open>in_mask\<close> and \<^verbatim>\<open>in_xfms\<close> and an output node with exactly \<^verbatim>\<open>out_file\<close> and
  \<^verbatim>\<open>out_xfms\<close>. This holds whatever name the workflow is given.
\<close>

theorem pipeline_fields:
  "map_option node_interface (get_node (hmc_pipeline name) ''inputnode'')
     = Some (IdentityInterface [''in_file'', ''ref_num'', ''in_bvec'', ''in_mask''])
   \<and> map_option node_interface (get_node (hmc_pipeline name) ''outputnode'')
     = Some (IdentityInterface [''out_file'', ''out_bvec'', ''out_xfms''])
   \<and> map_option node_interface (get_node (ecc_pipeline name') ''inputnode'')
     = Some (IdentityInterface [''in_file'', ''in_bval'', ''in_mask'', ''in_xfms''])
   \<and> map_option node_interface (get_node (ecc_pipeline name') ''outputnode'')
     = Some (IdentityInterface [''out_file'', ''out_xfms''])"
  by (simp add: hmc_inputnode hmc_outputnode ecc_inputnode ecc_outputnode)

section \<open>Properties of the helper functions\<close>

text \<open>
  C3. \<^verbatim>\<open>_checkrnum\<close> returns the index \<open>0\<close> when \<^verbatim>\<open>ref_num\<close> is \<open>None\<close> or
  undefined and returns \<^verbatim>\<open>ref_num\<close> itself in every other case; in the head-motion
  workflow the \<^verbatim>\<open>index\<close> input of \<^verbatim>\<open>Pick_b0\<close> is fed by the \<^verbatim>\<open>ref_num\<close> field of the
  input node through \<^verbatim>\<open>_checkrnum\<close>, and by nothing else.
\<close>

theorem checkrnum_default:
  "checkrnum PyNone = PyInt 0
   \<and> checkrnum Undefined = PyInt 0
   \<and> (ref_num \<noteq> PyNone \<and> ref_num \<noteq> Undefined \<longrightarrow> checkrnum ref_num = ref_num)
   \<and> feeds (hmc_pipeline name) ''Pick_b0'' ''index''
       = [(''inputnode'', Modified ''ref_num'' ''_checkrnum'')]"
  by (simp add: checkrnum_def isdefined_def hmc_Pick_b0_index)

theorem checkrnum_default_witness:
  "PyInt 2 \<noteq> PyNone \<and> PyInt 2 \<noteq> Undefined \<and> checkrnum (PyInt 2) = PyInt 2"
  using checkrnum_default [of "PyInt 2"] by simp

subsection \<open>Determinants\<close>

lemma list4: "length xs = 4 \<Longrightarrow> \<exists>a b c d. xs = [a, b, c, d]"
  by (auto simp: numeral_eq_Suc length_Suc_conv)

lemma det4_affine:
  "cofactor_det [[a, b, c, tx], [d, e, f, ty], [g, h, i, tz], [0, 0, 0, 1]]
     = a * (e * i - f * h) - b * (d * i - f * g) + c * (d * h - e * g)"
  by (simp add: upt_conv_Cons del_col_def algebra_simps)

lemma jacobian_det_explicit:
  "jacobian_det [[a, b, c, tx], [d, e, f, ty], [g, h, i, tz], r]
     = a * (e * i - f * h) - b * (d * i - f * g) + c * (d * h - e * g)"
  by (simp add: jacobian_det_def)

lemma affine_shape:
  assumes "length m = 4" and "list_all (\<lambda>r. length r = 4) m" and "m ! 3 = [0, 0, 0, 1]"
  shows "\<exists>a b c tx d e f ty g h i tz.
    m = [[a, b, c, tx], [d, e, f, ty], [g, h, i, tz], [0, 0, 0, 1]]"
proof -
  from assms(1) obtain r0 r1 r2 r3 where m: "m = [r0, r1, r2, r3]"
    using list4 by blast
  with assms(2) have "length r0 = 4" "length r1 = 4" "length r2 = 4" by simp_all
  then obtain a b c tx d e f ty g h i tz
    where "r0 = [a, b, c, tx]" "r1 = [d, e, f, ty]" "r2 = [g, h, i, tz]"
    using list4 by metis
  moreover from assms(3) m have "r3 = [0, 0, 0, 1]" by simp
  ultimately show ?thesis using m by blast
qed

text \<open>
  For an affine transform the determinant of the four by four matrix is the Jacobian
  determinant of the transform.
\<close>

lemma affine_cofactor:
  assumes "holds_affine fs fname"
  shows "cofactor_det (reals (matrix_of fs fname)) = jacobian_det (reals (matrix_of fs fname))"
proof -
  from assms obtain m where m: "fs fname = Some (Arr2 m)" "length m = 4"
      "list_all (\<lambda>r. length r = 4) m" "m ! 3 = [Finite 0, Finite 0, Finite 0, Finite 1]"
    by (auto simp: holds_affine_def split: option.splits ndarray.splits)
  then have mo: "matrix_of fs fname = m" by (simp add: matrix_of_def)
  have l: "length (reals m) = 4" using m(2) by (simp add: reals_def)
  have r: "list_all (\<lambda>r. length r = 4) (reals m)"
    using m(3) by (simp add: reals_def list_all_iff)
  have "reals m ! 3 = map real_of (m ! 3)" using m(2) by (simp add: reals_def)
  with m(4) have z: "reals m ! 3 = [0, 0, 0, 1]" by simp
  from affine_shape [OF l r z] obtain a b c tx d e f ty g h i tz
    where "reals m = [[a, b, c, tx], [d, e, f, ty], [g, h, i, tz], [0, 0, 0, 1]]" by blast
  with mo show ?thesis
    by (simp only: det4_affine jacobian_det_explicit)
qed

lemma fabs_ge0: "float_ge0 (fabs d) = (d \<noteq> NaN)"
  by (cases d) simp_all

lemma fabs_NaN: "(fabs d = NaN) = (d = NaN)"
  by (cases d) simp_all

lemma xfm_jacobian_returns:
  assumes "list_all (det_returns det fs) in_xfm"
  shows "xfm_jacobian det fs in_xfm = Inr (map (\<lambda>x. fabs (det_of det fs x)) in_xfm)"
  using assms
proof (induction in_xfm)
  case Nil
  show ?case by simp
next
  case (Cons x rest)
  from Cons.prems obtain a d where "fs x = Some a" "det a = Inr d"
    by (auto simp: det_returns_def split: option.splits sum.splits)
  then have "loadtxt fs x = Inr a" "det a = Inr d" "det_of det fs x = d"
    by (simp_all add: loadtxt_def det_of_def)
  with Cons show ?case by simp
qed

lemma xfm_jacobian_Inr:
  assumes "xfm_jacobian det fs in_xfm = Inr js"
  shows "list_all (det_returns det fs) in_xfm"
  using assms
proof (induction in_xfm arbitrary: js)
  case Nil
  show ?case by simp
next
  case (Cons x rest)
  from Cons.prems obtain a d ds where "fs x = Some a" "det a = Inr d"
      "xfm_jacobian det fs rest = Inr ds"
    by (auto simp: loadtxt_def split: option.splits sum.splits)
  with Cons.IH show ?case by (simp add: det_returns_def)
qed

lemma example_fs_affine:
  "holds_affine example_fs ''flip.mat''" "holds_affine example_fs ''scale.mat''"
  by (simp_all add: holds_affine_def example_fs_def)

lemma example_fs_reals:
  "reals (matrix_of example_fs ''flip.mat'')
     = [[- 1, 0, 0, 0], [0, 1, 0, 0], [0, 0, 1, 0], [0, 0, 0, 1]]"
  "reals (matrix_of example_fs ''scale.mat'')
     = [[2, 0, 0, 5], [0, 1, 0, 0], [0, 0, 3, - 1], [0, 0, 0, 1]]"
  by (simp_all add: matrix_of_def example_fs_def reals_def)

lemma example_fs_jacobian:
  "jacobian_det (reals (matrix_of example_fs ''flip.mat'')) = - 1"
  "jacobian_det (reals (matrix_of example_fs ''scale.mat'')) = 6"
  by (simp_all only: example_fs_reals jacobian_det_explicit) simp_all

lemma example_fs_cofactor:
  "cofactor_det (reals (matrix_of example_fs ''flip.mat'')) = - 1"
  "cofactor_det (reals (matrix_of example_fs ''scale.mat'')) = 6"
  using affine_cofactor [OF example_fs_affine(1)] affine_cofactor [OF example_fs_affine(2)]
  by (simp_all add: example_fs_jacobian)

lemma example_fs_det:
  "det_returns exact_det example_fs ''flip.mat''"
  "det_returns exact_det example_fs ''scale.mat''"
  "det_returns exact_det example_fs ''nan.mat''"
  by (simp_all add: det_returns_def exact_det_def example_fs_def)

lemma example_fs_det_of:
  "det_of exact_det example_fs ''flip.mat'' = Finite (- 1)"
  "det_of exact_det example_fs ''scale.mat'' = Finite 6"
  "det_of exact_det example_fs ''nan.mat'' = NaN"
proof -
  have "det_of exact_det example_fs ''flip.mat''
      = Finite (cofactor_det (reals (matrix_of example_fs ''flip.mat'')))"
    by (simp add: det_of_def exact_det_def example_fs_def matrix_of_def)
  then show "det_of exact_det example_fs ''flip.mat'' = Finite (- 1)"
    by (simp only: example_fs_cofactor)
  have "det_of exact_det example_fs ''scale.mat''
      = Finite (cofactor_det (reals (matrix_of example_fs ''scale.mat'')))"
    by (simp add: det_of_def exact_det_def example_fs_def matrix_of_def)
  then show "det_of exact_det example_fs ''scale.mat'' = Finite 6"
    by (simp only: example_fs_cofactor)
  show "det_of exact_det example_fs ''nan.mat'' = NaN"
    by (simp add: det_of_def exact_det_def example_fs_def)
qed

text \<open>
  C2, as the code has it. For every list of affine transform files on which the
  library's determinant returns, \<^verbatim>\<open>_xfm_jacobian\<close> returns one factor per file, and
  each factor is the absolute value of the double the library's determinant returns
  for the four by four matrix. Wherever that double is the determinant of the matrix
  without rounding, the factor is the absolute value of the Jacobian determinant of the
  transform. In the eddy-current workflow the \<^verbatim>\<open>operand_value\<close> input of
  \<^verbatim>\<open>ModulateDWIs\<close> is fed by the matrices of the registration through
  \<^verbatim>\<open>_xfm_jacobian\<close>, and by nothing else.
\<close>

theorem xfm_jacobian_abs_determinant:
  assumes "list_all (holds_affine fs) in_xfm" and "list_all (det_returns det fs) in_xfm"
  shows "\<exists>js. xfm_jacobian det fs in_xfm = Inr js
       \<and> length js = length in_xfm
       \<and> js = map (\<lambda>x. fabs (det_of det fs x)) in_xfm
       \<and> (\<forall>x\<in>set in_xfm.
            det_of det fs x = Finite (cofactor_det (reals (matrix_of fs x))) \<longrightarrow>
            fabs (det_of det fs x) = Finite \<bar>jacobian_det (reals (matrix_of fs x))\<bar>)
       \<and> feeds (ecc_pipeline name) ''ModulateDWIs'' ''operand_value''
           = [(''CoRegistration'', Modified ''out_matrix_file'' ''_xfm_jacobian'')]"
proof -
  let ?js = "map (\<lambda>x. fabs (det_of det fs x)) in_xfm"
  have run: "xfm_jacobian det fs in_xfm = Inr ?js"
    using assms(2) by (rule xfm_jacobian_returns)
  have jac: "\<forall>x\<in>set in_xfm.
      det_of det fs x = Finite (cofactor_det (reals (matrix_of fs x))) \<longrightarrow>
      fabs (det_of det fs x) = Finite \<bar>jacobian_det (reals (matrix_of fs x))\<bar>"
  proof (intro ballI impI)
    fix x assume "x \<in> set in_xfm"
      and d: "det_of det fs x = Finite (cofactor_det (reals (matrix_of fs x)))"
    with assms(1) have "holds_affine fs x" by (simp add: list_all_iff)
    from affine_cofactor [OF this] d
    show "fabs (det_of det fs x) = Finite \<bar>jacobian_det (reals (matrix_of fs x))\<bar>"
      by simp
  qed
  from run jac ecc_ModulateDWIs_operand [of name] show ?thesis
    by simp
qed

theorem xfm_jacobian_abs_determinant_witness:
  "list_all (holds_affine example_fs) [''scale.mat'', ''flip.mat'']
   \<and> list_all (det_returns exact_det example_fs) [''scale.mat'', ''flip.mat'']
   \<and> det_of exact_det example_fs ''scale.mat'' = Finite 6
   \<and> det_of exact_det example_fs ''flip.mat'' = Finite (- 1)
   \<and> xfm_jacobian exact_det example_fs [''scale.mat'', ''flip.mat''] = Inr [Finite 6, Finite 1]"
  using xfm_jacobian_abs_determinant [of example_fs "[''scale.mat'', ''flip.mat'']" exact_det]
  by (simp add: example_fs_affine example_fs_det example_fs_det_of)

text \<open>
  C2 as the spec words it, that the factor is the determinant itself, fails on a
  transform that flips an axis: the determinant is \<open>-1\<close>, which the library returns as
  it is, and the factor is \<open>1\<close>.
\<close>

theorem xfm_jacobian_flip_counterexample:
  "holds_affine example_fs ''flip.mat''
   \<and> jacobian_det (reals (matrix_of example_fs ''flip.mat'')) = - 1
   \<and> cofactor_det (reals (matrix_of example_fs ''flip.mat'')) = - 1
   \<and> det_of exact_det example_fs ''flip.mat'' = Finite (- 1)
   \<and> xfm_jacobian exact_det example_fs [''flip.mat''] = Inr [Finite 1]
   \<and> xfm_jacobian exact_det example_fs [''flip.mat'']
        \<noteq> Inr [det_of exact_det example_fs ''flip.mat'']"
proof -
  have "xfm_jacobian exact_det example_fs [''flip.mat'']
      = Inr (map (\<lambda>x. fabs (det_of exact_det example_fs x)) [''flip.mat''])"
    by (rule xfm_jacobian_returns) (simp add: example_fs_det)
  then have r: "xfm_jacobian exact_det example_fs [''flip.mat''] = Inr [Finite 1]"
    by (simp add: example_fs_det_of)
  from r example_fs_affine(1) example_fs_jacobian(1) example_fs_cofactor(1)
    example_fs_det_of(1)
  show ?thesis by simp
qed

text \<open>
  C9, as the code has it. Whenever \<^verbatim>\<open>_xfm_jacobian\<close> returns, its list is as long as
  the list of files, each factor is \<^verbatim>\<open>fabs\<close> of the double the library's determinant
  returns for the file, and no factor is negative: a factor is nonnegative unless the
  determinant returned is NaN, and then the factor is NaN. It does return when the
  library's determinant returns for every file.
\<close>

theorem xfm_jacobian_nonnegative:
  "(xfm_jacobian det fs in_xfm = Inr js \<longrightarrow>
      length js = length in_xfm
      \<and> js = map (\<lambda>x. fabs (det_of det fs x)) in_xfm
      \<and> list_all (\<lambda>j. float_ge0 j \<or> j = NaN) js
      \<and> (\<forall>k<length in_xfm. float_ge0 (js ! k) = (det_of det fs (in_xfm ! k) \<noteq> NaN))
      \<and> (\<forall>k<length in_xfm. (js ! k = NaN) = (det_of det fs (in_xfm ! k) = NaN)))
   \<and> (list_all (det_returns det fs) in_xfm \<longrightarrow> (\<exists>js'. xfm_jacobian det fs in_xfm = Inr js'))"
proof (intro conjI impI)
  assume run: "xfm_jacobian det fs in_xfm = Inr js"
  from xfm_jacobian_returns [OF xfm_jacobian_Inr [OF run]] run
  have js: "js = map (\<lambda>x. fabs (det_of det fs x)) in_xfm" by simp
  then show "js = map (\<lambda>x. fabs (det_of det fs x)) in_xfm" .
  from js show "length js = length in_xfm" by simp
  from js show "list_all (\<lambda>j. float_ge0 j \<or> j = NaN) js"
    by (auto simp: list_all_iff fabs_ge0 fabs_NaN)
  from js show "\<forall>k<length in_xfm. float_ge0 (js ! k) = (det_of det fs (in_xfm ! k) \<noteq> NaN)"
    by (simp add: fabs_ge0)
  from js show "\<forall>k<length in_xfm. (js ! k = NaN) = (det_of det fs (in_xfm ! k) = NaN)"
    by (simp add: fabs_NaN)
next
  assume "list_all (det_returns det fs) in_xfm"
  from xfm_jacobian_returns [OF this] show "\<exists>js'. xfm_jacobian det fs in_xfm = Inr js'"
    by blast
qed

theorem xfm_jacobian_nonnegative_witness:
  "list_all (det_returns exact_det example_fs) [''flip.mat'', ''scale.mat'']
   \<and> xfm_jacobian exact_det example_fs [''flip.mat'', ''scale.mat''] = Inr [Finite 1, Finite 6]
   \<and> length [Finite 1, Finite 6] = length [''flip.mat'', ''scale.mat'']
   \<and> list_all (\<lambda>j. float_ge0 j \<or> j = NaN) [Finite 1, Finite 6]"
proof -
  have ret: "list_all (det_returns exact_det example_fs) [''flip.mat'', ''scale.mat'']"
    by (simp add: example_fs_det)
  have "xfm_jacobian exact_det example_fs [''flip.mat'', ''scale.mat'']
      = Inr (map (\<lambda>x. fabs (det_of exact_det example_fs x)) [''flip.mat'', ''scale.mat''])"
    using ret by (rule xfm_jacobian_returns)
  then have run: "xfm_jacobian exact_det example_fs [''flip.mat'', ''scale.mat'']
      = Inr [Finite 1, Finite 6]"
    by (simp add: example_fs_det_of)
  note t = xfm_jacobian_nonnegative
    [of exact_det example_fs "[''flip.mat'', ''scale.mat'']" "[Finite 1, Finite 6]"]
  from t run have len: "length [Finite 1, Finite 6] = length [''flip.mat'', ''scale.mat'']"
    by blast
  from t run have pos: "list_all (\<lambda>j. float_ge0 j \<or> j = NaN) [Finite 1, Finite 6]"
    by blast
  from ret run len pos show ?thesis by (intro conjI)
qed

text \<open>
  C9 as the spec words it, that every factor is nonnegative, fails on a file that
  holds a NaN: \<^verbatim>\<open>loadtxt\<close> parses it, the determinant is NaN, \<^verbatim>\<open>fabs\<close> of NaN is NaN,
  and NaN is not greater than or equal to zero.
\<close>

theorem xfm_jacobian_nan_counterexample:
  "example_fs ''nan.mat''
     = Some (Arr2 [[NaN, Finite 0, Finite 0, Finite 0],
                   [Finite 0, Finite 1, Finite 0, Finite 0],
                   [Finite 0, Finite 0, Finite 1, Finite 0],
                   [Finite 0, Finite 0, Finite 0, Finite 1]])
   \<and> det_of exact_det example_fs ''nan.mat'' = NaN
   \<and> xfm_jacobian exact_det example_fs [''nan.mat''] = Inr [NaN]
   \<and> \<not> float_ge0 NaN"
proof -
  have "xfm_jacobian exact_det example_fs [''nan.mat'']
      = Inr (map (\<lambda>x. fabs (det_of exact_det example_fs x)) [''nan.mat''])"
    by (rule xfm_jacobian_returns) (simp add: example_fs_det)
  then have "xfm_jacobian exact_det example_fs [''nan.mat''] = Inr [NaN]"
    by (simp add: example_fs_det_of)
  with example_fs_det_of(3) show ?thesis
    by (simp add: example_fs_def)
qed

subsection \<open>Initial transforms\<close>

text \<open>One pass of the first loop, with the file name it writes folded.\<close>

lemma write_identities_Cons:
  "write_identities w (i # rest) =
     (if writable w (init_path w i)
      then (case write_identities (w\<lparr>files := (files w)(init_path w i \<mapsto> Arr2 eye4)\<rparr>) rest of
              (Inl e, w'') \<Rightarrow> (Inl e, w'')
            | (Inr init_xfms, w'') \<Rightarrow> (Inr (PyStr (init_path w i) # init_xfms), w''))
      else (Inl (IOError (init_path w i)), w))"
  by (simp add: Let_def savetxt_def init_path_def split: prod.splits sum.splits)

lemma init_path_files_update: "init_path (w\<lparr>files := fs\<rparr>) = init_path w"
  by (rule ext) (simp add: init_path_def)

lemma write_identities_cwd: "cwd (snd (write_identities w idx)) = cwd w"
proof (induction idx arbitrary: w)
  case Nil
  show ?case by simp
next
  case (Cons i rest)
  let ?w' = "w\<lparr>files := (files w)(init_path w i \<mapsto> Arr2 eye4)\<rparr>"
  from Cons [of ?w'] show ?case
    by (cases "write_identities ?w' rest")
      (auto simp: write_identities_Cons simp del: write_identities.simps split: sum.splits)
qed

text \<open>
  Where every file of the first loop can be written, the loop returns their names, in
  order, every one of them holds the identity afterwards, and every other file is as it
  was.
\<close>

lemma write_identities_names:
  assumes "list_all (\<lambda>i. writable w (init_path w i)) idx"
  shows "fst (write_identities w idx) = Inr (map (\<lambda>i. PyStr (init_path w i)) idx)"
  using assms
proof (induction idx arbitrary: w)
  case Nil
  show ?case by simp
next
  case (Cons i rest)
  let ?w' = "w\<lparr>files := (files w)(init_path w i \<mapsto> Arr2 eye4)\<rparr>"
  from Cons.prems have here: "writable w (init_path w i)"
    and there: "list_all (\<lambda>i. writable ?w' (init_path ?w' i)) rest"
    by (simp_all add: init_path_files_update)
  from Cons.IH [OF there]
  have "fst (write_identities ?w' rest) = Inr (map (\<lambda>i. PyStr (init_path w i)) rest)"
    by (simp add: init_path_files_update)
  with here show ?case
    by (cases "write_identities ?w' rest")
      (simp add: write_identities_Cons del: write_identities.simps)
qed

lemma write_identities_files:
  assumes "list_all (\<lambda>i. writable w (init_path w i)) idx"
  shows "files (snd (write_identities w idx)) f =
           (if f \<in> init_path w ` set idx then Some (Arr2 eye4) else files w f)"
  using assms
proof (induction idx arbitrary: w)
  case Nil
  show ?case by simp
next
  case (Cons i rest)
  let ?w' = "w\<lparr>files := (files w)(init_path w i \<mapsto> Arr2 eye4)\<rparr>"
  from Cons.prems have here: "writable w (init_path w i)"
    and there: "list_all (\<lambda>i. writable ?w' (init_path ?w' i)) rest"
    by (simp_all add: init_path_files_update)
  from write_identities_names [OF there] obtain r
    where r: "fst (write_identities ?w' rest) = Inr r"
    by blast
  from Cons.IH [OF there]
  have "files (snd (write_identities ?w' rest)) f =
      (if f \<in> init_path w ` set rest then Some (Arr2 eye4) else files ?w' f)"
    by (simp add: init_path_files_update)
  with here r show ?case
    by (cases "write_identities ?w' rest")
      (auto simp: write_identities_Cons simp del: write_identities.simps)
qed

text \<open>Where one of them cannot be written, the loop raises the error of that write.\<close>

lemma write_identities_fail:
  assumes "\<not> list_all (\<lambda>i. writable w (init_path w i)) idx"
  shows "\<exists>p. fst (write_identities w idx) = Inl (IOError p)"
  using assms
proof (induction idx arbitrary: w)
  case Nil
  then show ?case by simp
next
  case (Cons i rest)
  let ?w' = "w\<lparr>files := (files w)(init_path w i \<mapsto> Arr2 eye4)\<rparr>"
  show ?case
  proof (cases "writable w (init_path w i)")
    case False
    then show ?thesis by (simp add: write_identities_Cons del: write_identities.simps)
  next
    case True
    with Cons.prems have "\<not> list_all (\<lambda>i. writable ?w' (init_path ?w' i)) rest"
      by (simp add: init_path_files_update)
    from Cons.IH [OF this] obtain p where "fst (write_identities ?w' rest) = Inl (IOError p)"
      by blast
    with True show ?thesis
      by (cases "write_identities ?w' rest")
        (simp add: write_identities_Cons del: write_identities.simps)
  qed
qed

lemma write_identities_length:
  "write_identities w idx = (Inr r, w') \<Longrightarrow> length r = length idx"
proof (induction idx arbitrary: w r w')
  case Nil
  then show ?case by simp
next
  case (Cons i rest)
  let ?w' = "w\<lparr>files := (files w)(init_path w i \<mapsto> Arr2 eye4)\<rparr>"
  from Cons.prems obtain r' where "write_identities ?w' rest = (Inr r', w')"
      and "r = PyStr (init_path w i) # r'"
    by (cases "write_identities ?w' rest")
      (auto simp: write_identities_Cons simp del: write_identities.simps
        split: if_splits sum.splits)
  with Cons.IH show ?case by simp
qed

lemma pick_xfms_list:
  assumes "list_all (\<lambda>i. i < length xs) idx"
  shows "pick_xfms (PyList xs) idx = Inr (map (\<lambda>i. xs ! i) idx)"
  using assms by (induction idx) (simp_all add: py_getitem_def)

lemma pick_xfms_length: "pick_xfms v idx = Inr r \<Longrightarrow> length r = length idx"
  by (induction idx arbitrary: r) (auto split: sum.splits)

text \<open>The nonzero positions of a table of b-values.\<close>

lemma where_nonzero_table:
  assumes "table_values a = Some bvals"
  shows "where_nonzero a = filter (\<lambda>i. float_ne0 (bvals ! i)) [0..<length bvals]"
  using assms by (auto simp: table_values_def where_nonzero_def split: ndarray.splits)

lemma nonzero_positions_length:
  "length (filter (\<lambda>i. float_ne0 (bvals ! i)) [0..<length bvals]) = length (filter float_ne0 bvals)"
proof -
  let ?idx = "filter (\<lambda>i. float_ne0 (bvals ! i)) [0..<length bvals]"
  have c: "card (set ?idx) = length ?idx"
    by (rule distinct_card) simp
  have s: "set ?idx = {i. i < length bvals \<and> float_ne0 (bvals ! i)}"
    by auto
  have l: "length (filter float_ne0 bvals) = card {i. i < length bvals \<and> float_ne0 (bvals ! i)}"
    by (rule length_filter_conv_card)
  from c s l show ?thesis by (simp only:)
qed

lemma checkinitxfm_unset:
  assumes "files w in_bval = Some a" and "in_xfms = PyNone \<or> in_xfms = Undefined"
  shows "checkinitxfm w in_bval in_xfms = write_identities w (where_nonzero a)"
  using assms by (auto simp: checkinitxfm_def loadtxt_def isdefined_def)

lemma checkinitxfm_mismatch:
  assumes "files w in_bval = Some (Arr1 bvals)" and "length xs \<noteq> length bvals"
  shows "checkinitxfm w in_bval (PyList xs) = write_identities w (where_nonzero (Arr1 bvals))"
  using assms by (simp add: checkinitxfm_def loadtxt_def isdefined_def py_len_def np_len_def)

lemma checkinitxfm_passthrough:
  assumes "files w in_bval = Some (Arr1 bvals)" and "length xs = length bvals"
  shows "checkinitxfm w in_bval (PyList xs)
    = (Inr (map (\<lambda>i. xs ! i) (filter (\<lambda>i. float_ne0 (bvals ! i)) [0..<length bvals])), w)"
proof -
  let ?idx = "filter (\<lambda>i. float_ne0 (bvals ! i)) [0..<length bvals]"
  have idx: "where_nonzero (Arr1 bvals) = ?idx" by (simp add: where_nonzero_def)
  have "list_all (\<lambda>i. i < length xs) ?idx"
    using assms(2) by (simp add: list_all_iff)
  then have "pick_xfms (PyList xs) ?idx = Inr (map (\<lambda>i. xs ! i) ?idx)"
    by (rule pick_xfms_list)
  with assms idx show ?thesis
    by (simp add: checkinitxfm_def loadtxt_def isdefined_def py_len_def np_len_def)
qed

lemma checkinitxfm_scalar_list:
  assumes "files w in_bval = Some (Arr0 x)"
  shows "checkinitxfm w in_bval (PyList xs) = (Inl TypeError, w)"
  using assms by (simp add: checkinitxfm_def loadtxt_def isdefined_def py_len_def np_len_def)

lemma checkinitxfm_length:
  assumes "files w in_bval = Some a" and "checkinitxfm w in_bval in_xfms = (Inr r, w')"
  shows "length r = length (where_nonzero a)"
  using assms
  by (auto simp: checkinitxfm_def loadtxt_def Let_def
      split: if_splits sum.splits dest: pick_xfms_length write_identities_length)

text \<open>
  C4, as the code has it. Let the file \<^verbatim>\<open>in_bval\<close> hold a table that \<^verbatim>\<open>loadtxt\<close> reads
  as a one-dimensional array of b-values. When \<^verbatim>\<open>in_xfms\<close> is \<open>None\<close>, undefined, or a
  list whose length differs from the number of b-values, \<^verbatim>\<open>_checkinitxfm\<close> raises
  nothing on account of the list: provided every file it has to write can be written, it
  returns, for each index whose b-value is nonzero and in increasing order, the absolute
  name of the file \<^verbatim>\<open>init_NNNN.mat\<close>, and after the call each of these files holds the
  four by four identity while every other file is unchanged; where a write fails, it
  raises the error of that write. When \<^verbatim>\<open>in_xfms\<close> is a list as long as the table, it
  returns exactly the entries of \<^verbatim>\<open>in_xfms\<close> at those indices, in order, and writes
  nothing.
\<close>

theorem checkinitxfm_branches:
  assumes "files w in_bval = Some (Arr1 bvals)"
  shows "(in_xfms = PyNone \<or> in_xfms = Undefined
            \<or> (\<exists>xs. in_xfms = PyList xs \<and> length xs \<noteq> length bvals) \<longrightarrow>
          ((\<forall>i. i < length bvals \<and> float_ne0 (bvals ! i) \<longrightarrow> writable w (init_path w i)) \<longrightarrow>
             (\<exists>w'. checkinitxfm w in_bval in_xfms
                     = (Inr (map (\<lambda>i. PyStr (init_path w i))
                              (filter (\<lambda>i. float_ne0 (bvals ! i)) [0..<length bvals])), w')
                \<and> cwd w' = cwd w
                \<and> (\<forall>i. i < length bvals \<and> float_ne0 (bvals ! i) \<longrightarrow>
                       files w' (init_path w i) = Some (Arr2 eye4))
                \<and> (\<forall>f. f \<notin> init_path w ` {i. i < length bvals \<and> float_ne0 (bvals ! i)} \<longrightarrow>
                       files w' f = files w f)))
          \<and> (\<not> (\<forall>i. i < length bvals \<and> float_ne0 (bvals ! i) \<longrightarrow> writable w (init_path w i)) \<longrightarrow>
               (\<exists>p w'. checkinitxfm w in_bval in_xfms = (Inl (IOError p), w'))))
       \<and> (length ys = length bvals \<longrightarrow>
            checkinitxfm w in_bval (PyList ys)
              = (Inr (map (\<lambda>i. ys ! i) (filter (\<lambda>i. float_ne0 (bvals ! i)) [0..<length bvals])), w))"
proof (intro conjI impI)
  let ?idx = "filter (\<lambda>i. float_ne0 (bvals ! i)) [0..<length bvals]"
  let ?w' = "snd (write_identities w ?idx)"
  have idx: "where_nonzero (Arr1 bvals) = ?idx" by (simp add: where_nonzero_def)
  have set_idx: "set ?idx = {i. i < length bvals \<and> float_ne0 (bvals ! i)}" by auto
  assume "in_xfms = PyNone \<or> in_xfms = Undefined
      \<or> (\<exists>xs. in_xfms = PyList xs \<and> length xs \<noteq> length bvals)"
  with assms have run: "checkinitxfm w in_bval in_xfms = write_identities w ?idx"
    using checkinitxfm_unset [OF assms, of in_xfms] checkinitxfm_mismatch [OF assms]
    by (auto simp: idx)
  {
    assume "\<forall>i. i < length bvals \<and> float_ne0 (bvals ! i) \<longrightarrow> writable w (init_path w i)"
    then have ok: "list_all (\<lambda>i. writable w (init_path w i)) ?idx"
      by (simp add: list_all_iff)
    from write_identities_names [OF ok] run
    have res: "checkinitxfm w in_bval in_xfms = (Inr (map (\<lambda>i. PyStr (init_path w i)) ?idx), ?w')"
      by (simp add: prod_eq_iff)
    have dir: "cwd ?w' = cwd w" by (rule write_identities_cwd)
    have written: "\<forall>i. i < length bvals \<and> float_ne0 (bvals ! i) \<longrightarrow>
        files ?w' (init_path w i) = Some (Arr2 eye4)"
      by (simp add: write_identities_files [OF ok] set_idx)
    have kept: "\<forall>f. f \<notin> init_path w ` {i. i < length bvals \<and> float_ne0 (bvals ! i)} \<longrightarrow>
        files ?w' f = files w f"
      by (simp add: write_identities_files [OF ok] set_idx)
    from res dir written kept
    show "\<exists>w'. checkinitxfm w in_bval in_xfms
                     = (Inr (map (\<lambda>i. PyStr (init_path w i)) ?idx), w')
                \<and> cwd w' = cwd w
                \<and> (\<forall>i. i < length bvals \<and> float_ne0 (bvals ! i) \<longrightarrow>
                       files w' (init_path w i) = Some (Arr2 eye4))
                \<and> (\<forall>f. f \<notin> init_path w ` {i. i < length bvals \<and> float_ne0 (bvals ! i)} \<longrightarrow>
                       files w' f = files w f)"
      by blast
  }
  {
    assume "\<not> (\<forall>i. i < length bvals \<and> float_ne0 (bvals ! i) \<longrightarrow> writable w (init_path w i))"
    then have "\<not> list_all (\<lambda>i. writable w (init_path w i)) ?idx"
      by (simp add: list_all_iff)
    from write_identities_fail [OF this] obtain p
      where "fst (write_identities w ?idx) = Inl (IOError p)" by blast
    with run show "\<exists>p w'. checkinitxfm w in_bval in_xfms = (Inl (IOError p), w')"
      by (metis prod.collapse)
  }
next
  assume "length ys = length bvals"
  with assms show "checkinitxfm w in_bval (PyList ys)
      = (Inr (map (\<lambda>i. ys ! i) (filter (\<lambda>i. float_ne0 (bvals ! i)) [0..<length bvals])), w)"
    by (rule checkinitxfm_passthrough)
qed

lemma example_bvals:
  "files example_world ''dwi.bval'' = Some (Arr1 [Finite 0, Finite 1000, Finite 0, Finite 2000])"
  "files example_world ''one.bval'' = Some (Arr0 (Finite 1000))"
  "files readonly_world ''dwi.bval'' = Some (Arr1 [Finite 0, Finite 1000, Finite 0, Finite 2000])"
  by (simp_all add: example_world_def readonly_world_def)

lemma example_nonzero:
  "filter (\<lambda>i. float_ne0 ([Finite 0, Finite 1000, Finite 0, Finite 2000] ! i))
     [0..<length [Finite 0, Finite 1000, Finite 0, Finite 2000]] = [1, 3]"
  by (simp add: upt_conv_Cons)

lemma example_paths:
  "init_path example_world 1 = ''/work/init_0001.mat''"
  "init_path example_world 3 = ''/work/init_0003.mat''"
  "init_path readonly_world 1 = ''/work/init_0001.mat''"
  by (simp_all add: init_path_def example_world_def readonly_world_def abspath_def init_name_def
      fmt_04d_def decimal.simps digit_char_def numeral_eq_Suc)

theorem checkinitxfm_branches_witness:
  "files example_world ''dwi.bval'' = Some (Arr1 [Finite 0, Finite 1000, Finite 0, Finite 2000])
   \<and> (\<exists>w'. checkinitxfm example_world ''dwi.bval'' PyNone
              = (Inr [PyStr ''/work/init_0001.mat'', PyStr ''/work/init_0003.mat''], w')
          \<and> files w' ''/work/init_0003.mat'' = Some (Arr2 eye4))
   \<and> checkinitxfm example_world ''dwi.bval''
        (PyList [PyStr ''a.mat'', PyStr ''b.mat'', PyStr ''c.mat'', PyStr ''d.mat''])
        = (Inr [PyStr ''b.mat'', PyStr ''d.mat''], example_world)"
proof -
  let ?ys = "[PyStr ''a.mat'', PyStr ''b.mat'', PyStr ''c.mat'', PyStr ''d.mat'']"
  let ?bvals = "[Finite 0, Finite 1000, Finite 0, Finite 2000]"
  note t = checkinitxfm_branches [OF example_bvals(1), where in_xfms = PyNone and ys = ?ys,
      unfolded example_nonzero]
  have can: "\<forall>i. i < length ?bvals \<and> float_ne0 (?bvals ! i) \<longrightarrow>
      writable example_world (init_path example_world i)"
    by (simp add: example_world_def)
  from t can obtain w' where
    r: "checkinitxfm example_world ''dwi.bval'' PyNone
       = (Inr (map (\<lambda>i. PyStr (init_path example_world i)) [1, 3]), w')"
    and f: "\<forall>i. i < length ?bvals \<and> float_ne0 (?bvals ! i) \<longrightarrow>
      files w' (init_path example_world i) = Some (Arr2 eye4)"
    by blast
  from f have "files w' (init_path example_world 3) = Some (Arr2 eye4)"
    by simp
  with r have a: "\<exists>w'. checkinitxfm example_world ''dwi.bval'' PyNone
              = (Inr [PyStr ''/work/init_0001.mat'', PyStr ''/work/init_0003.mat''], w')
          \<and> files w' ''/work/init_0003.mat'' = Some (Arr2 eye4)"
    by (simp only: example_paths list.map) blast
  from t have b: "checkinitxfm example_world ''dwi.bval'' (PyList ?ys)
        = (Inr [PyStr ''b.mat'', PyStr ''d.mat''], example_world)"
    by simp
  from example_bvals(1) a b show ?thesis by (intro conjI)
qed

text \<open>
  C4 as the spec words it, that the function never fails on a missing or mismatched
  list, fails in two ways. In a directory that cannot be written, the first write raises
  and the error goes to the caller. And on a table of a single b-value, which
  \<^verbatim>\<open>loadtxt\<close> reads as a zero-dimensional array, \<^verbatim>\<open>len(bvals)\<close> raises a
  \<^verbatim>\<open>TypeError\<close> for every list \<^verbatim>\<open>in_xfms\<close>.
\<close>

theorem checkinitxfm_raises_counterexample:
  "files readonly_world ''dwi.bval'' = Some (Arr1 [Finite 0, Finite 1000, Finite 0, Finite 2000])
   \<and> checkinitxfm readonly_world ''dwi.bval'' PyNone
       = (Inl (IOError ''/work/init_0001.mat''), readonly_world)
   \<and> files example_world ''one.bval'' = Some (Arr0 (Finite 1000))
   \<and> checkinitxfm example_world ''one.bval'' (PyList [PyStr ''a.mat'', PyStr ''b.mat''])
       = (Inl TypeError, example_world)"
proof -
  have "checkinitxfm readonly_world ''dwi.bval'' PyNone
      = write_identities readonly_world
          (where_nonzero (Arr1 [Finite 0, Finite 1000, Finite 0, Finite 2000]))"
    by (rule checkinitxfm_unset [OF example_bvals(3)]) simp
  also have "where_nonzero (Arr1 [Finite 0, Finite 1000, Finite 0, Finite 2000]) = [1, 3]"
    using example_nonzero by (simp add: where_nonzero_def)
  also have "write_identities readonly_world [1, 3]
      = (Inl (IOError (init_path readonly_world 1)), readonly_world)"
    by (simp only: write_identities_Cons) (simp add: readonly_world_def)
  finally have ro: "checkinitxfm readonly_world ''dwi.bval'' PyNone
      = (Inl (IOError ''/work/init_0001.mat''), readonly_world)"
    by (simp only: example_paths)
  from ro example_bvals checkinitxfm_scalar_list [OF example_bvals(2)] show ?thesis
    by simp
qed

text \<open>
  C8. Let the file \<^verbatim>\<open>in_bval\<close> hold a table of b-values, one-dimensional or of a
  single value. \<^verbatim>\<open>_nonb0\<close> returns a strictly increasing list of indices that contains
  exactly the positions whose b-value is nonzero, so it has one index per nonzero
  b-value. Whatever \<^verbatim>\<open>in_xfms\<close> is, a list that \<^verbatim>\<open>_checkinitxfm\<close> returns has exactly
  that many entries, in its fallback branch and in its pass-through branch. It does
  return one when \<^verbatim>\<open>in_xfms\<close> is \<open>None\<close> or undefined and the files of the fallback can
  be written, and, for a one-dimensional table, when \<^verbatim>\<open>in_xfms\<close> is a list as long as
  the table or a list of another length and the files of the fallback can be written.
\<close>

theorem nonb0_indices:
  assumes "files w in_bval = Some a" and "table_values a = Some bvals"
  shows "\<exists>idx. nonb0 (files w) in_bval = Inr idx
       \<and> sorted_wrt (<) idx
       \<and> set idx = {i. i < length bvals \<and> float_ne0 (bvals ! i)}
       \<and> length idx = length (filter float_ne0 bvals)
       \<and> (\<forall>in_xfms r w'. checkinitxfm w in_bval in_xfms = (Inr r, w') \<longrightarrow> length r = length idx)
       \<and> (\<forall>in_xfms. (in_xfms = PyNone \<or> in_xfms = Undefined)
              \<and> list_all (\<lambda>i. writable w (init_path w i)) idx \<longrightarrow>
            (\<exists>r w'. checkinitxfm w in_bval in_xfms = (Inr r, w')))
       \<and> (\<forall>ys. a = Arr1 bvals
              \<and> (length ys = length bvals \<or> list_all (\<lambda>i. writable w (init_path w i)) idx) \<longrightarrow>
            (\<exists>r w'. checkinitxfm w in_bval (PyList ys) = (Inr r, w')))"
proof -
  let ?idx = "filter (\<lambda>i. float_ne0 (bvals ! i)) [0..<length bvals]"
  have idx: "where_nonzero a = ?idx"
    using assms(2) by (rule where_nonzero_table)
  have run: "nonb0 (files w) in_bval = Inr ?idx"
    using assms(1) idx by (simp add: nonb0_def loadtxt_def)
  have sorted: "sorted_wrt (<) ?idx"
    by (simp add: sorted_wrt_filter)
  have members: "set ?idx = {i. i < length bvals \<and> float_ne0 (bvals ! i)}"
    by auto
  have count: "length ?idx = length (filter float_ne0 bvals)"
    by (rule nonzero_positions_length)
  have len: "\<forall>in_xfms r w'. checkinitxfm w in_bval in_xfms = (Inr r, w') \<longrightarrow>
      length r = length ?idx"
  proof (intro allI impI)
    fix in_xfms r w'
    assume "checkinitxfm w in_bval in_xfms = (Inr r, w')"
    from checkinitxfm_length [OF assms(1) this] idx show "length r = length ?idx"
      by simp
  qed
  have written: "\<exists>r w'. write_identities w ?idx = (Inr r, w')"
    if ok: "list_all (\<lambda>i. writable w (init_path w i)) ?idx"
  proof -
    from write_identities_names [OF ok]
    have "write_identities w ?idx
        = (Inr (map (\<lambda>i. PyStr (init_path w i)) ?idx), snd (write_identities w ?idx))"
      by (simp add: prod_eq_iff)
    then show ?thesis by blast
  qed
  have unset: "\<forall>in_xfms. (in_xfms = PyNone \<or> in_xfms = Undefined)
        \<and> list_all (\<lambda>i. writable w (init_path w i)) ?idx \<longrightarrow>
      (\<exists>r w'. checkinitxfm w in_bval in_xfms = (Inr r, w'))"
  proof (intro allI impI)
    fix in_xfms
    assume h: "(in_xfms = PyNone \<or> in_xfms = Undefined)
        \<and> list_all (\<lambda>i. writable w (init_path w i)) ?idx"
    then have "checkinitxfm w in_bval in_xfms = write_identities w ?idx"
      using checkinitxfm_unset [OF assms(1), of in_xfms] idx by simp
    moreover from h have "\<exists>r w'. write_identities w ?idx = (Inr r, w')"
      by (intro written) simp
    ultimately show "\<exists>r w'. checkinitxfm w in_bval in_xfms = (Inr r, w')"
      by simp
  qed
  have listed: "\<forall>ys. a = Arr1 bvals
        \<and> (length ys = length bvals \<or> list_all (\<lambda>i. writable w (init_path w i)) ?idx) \<longrightarrow>
      (\<exists>r w'. checkinitxfm w in_bval (PyList ys) = (Inr r, w'))"
  proof (intro allI impI)
    fix ys :: "pyval list"
    assume h: "a = Arr1 bvals
        \<and> (length ys = length bvals \<or> list_all (\<lambda>i. writable w (init_path w i)) ?idx)"
    with assms(1) have f: "files w in_bval = Some (Arr1 bvals)" by simp
    show "\<exists>r w'. checkinitxfm w in_bval (PyList ys) = (Inr r, w')"
    proof (cases "length ys = length bvals")
      case True
      from checkinitxfm_passthrough [OF f True] show ?thesis by blast
    next
      case False
      with h have "list_all (\<lambda>i. writable w (init_path w i)) ?idx" by simp
      then have "\<exists>r w'. write_identities w ?idx = (Inr r, w')" by (rule written)
      moreover have "checkinitxfm w in_bval (PyList ys) = write_identities w ?idx"
        using checkinitxfm_mismatch [OF f False] by (simp add: where_nonzero_def)
      ultimately show ?thesis by simp
    qed
  qed
  show ?thesis
  proof (intro exI [of _ ?idx] conjI)
    show "nonb0 (files w) in_bval = Inr ?idx" by (rule run)
    show "sorted_wrt (<) ?idx" by (rule sorted)
    show "set ?idx = {i. i < length bvals \<and> float_ne0 (bvals ! i)}" by (rule members)
    show "length ?idx = length (filter float_ne0 bvals)" by (rule count)
    show "\<forall>in_xfms r w'. checkinitxfm w in_bval in_xfms = (Inr r, w') \<longrightarrow>
      length r = length ?idx" by (rule len)
    show "\<forall>in_xfms. (in_xfms = PyNone \<or> in_xfms = Undefined)
        \<and> list_all (\<lambda>i. writable w (init_path w i)) ?idx \<longrightarrow>
      (\<exists>r w'. checkinitxfm w in_bval in_xfms = (Inr r, w'))" by (rule unset)
    show "\<forall>ys. a = Arr1 bvals
        \<and> (length ys = length bvals \<or> list_all (\<lambda>i. writable w (init_path w i)) ?idx) \<longrightarrow>
      (\<exists>r w'. checkinitxfm w in_bval (PyList ys) = (Inr r, w'))" by (rule listed)
  qed
qed

theorem nonb0_indices_witness:
  "files example_world ''dwi.bval'' = Some (Arr1 [Finite 0, Finite 1000, Finite 0, Finite 2000])
   \<and> table_values (Arr1 [Finite 0, Finite 1000, Finite 0, Finite 2000])
       = Some [Finite 0, Finite 1000, Finite 0, Finite 2000]
   \<and> nonb0 (files example_world) ''dwi.bval'' = Inr [1, 3]
   \<and> sorted_wrt (<) [1, 3 :: nat]
   \<and> length [1, 3 :: nat]
       = length (filter float_ne0 [Finite 0, Finite 1000, Finite 0, Finite 2000])
   \<and> files example_world ''one.bval'' = Some (Arr0 (Finite 1000))
   \<and> table_values (Arr0 (Finite 1000)) = Some [Finite 1000]
   \<and> nonb0 (files example_world) ''one.bval'' = Inr [0]
   \<and> length [0 :: nat] = length (filter float_ne0 [Finite 1000])"
proof -
  let ?bvals = "[Finite 0, Finite 1000, Finite 0, Finite 2000]"
  have tv: "table_values (Arr1 ?bvals) = Some ?bvals" "table_values (Arr0 (Finite 1000)) = Some [Finite 1000]"
    by (simp_all add: table_values_def)
  have run: "nonb0 (files example_world) ''dwi.bval'' = Inr [1, 3]"
    using example_nonzero by (simp add: nonb0_def loadtxt_def example_bvals where_nonzero_def)
  have run1: "nonb0 (files example_world) ''one.bval'' = Inr [0]"
    by (simp add: nonb0_def loadtxt_def example_bvals where_nonzero_def)
  from nonb0_indices [OF example_bvals(1) tv(1)]
  have "\<exists>idx. nonb0 (files example_world) ''dwi.bval'' = Inr idx \<and> sorted_wrt (<) idx
      \<and> length idx = length (filter float_ne0 ?bvals)"
    by (elim exE conjE) (rule exI, intro conjI; assumption)
  then obtain idx where
    "nonb0 (files example_world) ''dwi.bval'' = Inr idx" and "sorted_wrt (<) idx"
    and "length idx = length (filter float_ne0 ?bvals)"
    by (elim exE conjE)
  with run have a: "sorted_wrt (<) [1, 3 :: nat]"
    and b: "length [1, 3 :: nat] = length (filter float_ne0 ?bvals)"
    by simp_all
  from nonb0_indices [OF example_bvals(2) tv(2)]
  have "\<exists>idx. nonb0 (files example_world) ''one.bval'' = Inr idx
      \<and> length idx = length (filter float_ne0 [Finite 1000])"
    by (elim exE conjE) (rule exI, intro conjI; assumption)
  then obtain idx1 where
    "nonb0 (files example_world) ''one.bval'' = Inr idx1"
    and "length idx1 = length (filter float_ne0 [Finite 1000])"
    by (elim exE conjE)
  with run1 have c: "length [0 :: nat] = length (filter float_ne0 [Finite 1000])"
    by simp
  from example_bvals(1,2) tv run a b run1 c show ?thesis by (intro conjI)
qed

end
